theory Spec2Isabelle
  imports Main
begin

text \<open>
  The package \<open>orm\<close> of petrel (\<open>orm/orm.go\<close>): a statement descriptor \<open>Stmt\<close>, the
  compilers of SELECT, INSERT and UPDATE statements from the reflected fields of a
  record, and \<open>Query\<close>, \<open>Insert\<close> and \<open>Update\<close>, which run them on a \<open>*sql.DB\<close>.
  The functions are translated with their names; what they take from the Go library
  (\<open>reflect\<close>, \<open>unicode\<close>, \<open>fmt\<close>, \<open>bytes\<close>, \<open>database/sql\<close>) is written out as far
  as they use it.
\<close>

section \<open>Go strings, runes and decimal formatting\<close>

text \<open>
  A Go string is a sequence of bytes, as \<^typ>\<open>string\<close> is a list of 8-bit characters.
  A \<open>for _, c := range k\<close> loop does not walk the bytes: it decodes UTF-8 and yields one
  rune (code point) per encoded character, and the rune \<open>0xFFFD\<close> of width 1 for a byte
  that starts no valid encoding. \<open>DecodeRune\<close> follows \<open>utf8.DecodeRuneInString\<close> of the
  Go library on a non-empty string \<open>c # cs\<close>; it gives the rune and its width in bytes.
\<close>

type_synonym rune = nat

definition RuneError :: rune where
  "RuneError = 65533"

definition continuation :: "char \<Rightarrow> bool" where
  "continuation c = (128 \<le> (of_char c :: nat) \<and> (of_char c :: nat) \<le> 191)"

definition DecodeRune :: "char \<Rightarrow> string \<Rightarrow> rune \<times> nat" where
  "DecodeRune c cs =
     (let s0 = (of_char c :: nat) in
      if s0 < 128 then (s0, 1)
      else if s0 < 194 \<or> 244 < s0 then (RuneError, 1)
      else
        let sz = (if s0 < 224 then 2 else if s0 < 240 then 3 else 4 :: nat);
            lo = (if s0 = 224 then 160 else if s0 = 240 then 144 else 128 :: nat);
            hi = (if s0 = 237 then 159 else if s0 = 244 then 143 else 191 :: nat)
        in if Suc (length cs) < sz then (RuneError, 1)
           else
             let s1 = (of_char (cs ! 0) :: nat) in
             if s1 < lo \<or> hi < s1 then (RuneError, 1)
             else if sz \<le> 2 then ((s0 mod 32) * 64 + s1 mod 64, 2)
             else if \<not> continuation (cs ! 1) then (RuneError, 1)
             else if sz \<le> 3 then
               ((s0 mod 16) * 4096 + (s1 mod 64) * 64 + of_char (cs ! 1) mod 64, 3)
             else if \<not> continuation (cs ! 2) then (RuneError, 1)
             else ((s0 mod 8) * 262144 + (s1 mod 64) * 4096
                     + (of_char (cs ! 1) mod 64) * 64 + of_char (cs ! 2) mod 64, 4))"

function runes :: "string \<Rightarrow> rune list" where
  "runes [] = []"
| "runes (c # cs) = fst (DecodeRune c cs) # runes (drop (snd (DecodeRune c cs) - 1) cs)"
  by pat_completeness auto
termination
  by (relation "measure length") auto

text \<open>
  \<open>unicode.IsUpper\<close>: up to \<open>0xFF\<close> the Go library reads its Latin-1 property table,
  where the upper case letters are \<open>A..Z\<close>, \<open>0xC0..0xD6\<close> and \<open>0xD8..0xDE\<close>; above, it
  searches the range table \<open>unicode.Upper\<close>. That table belongs to the Go library, not
  to this package, and is the parameter \<open>Upper\<close> of everything that resolves a name.
\<close>

definition IsUpper :: "(rune \<Rightarrow> bool) \<Rightarrow> rune \<Rightarrow> bool" where
  "IsUpper Upper r =
     (if r \<le> 255 then (65 \<le> r \<and> r \<le> 90) \<or> (192 \<le> r \<and> r \<le> 214) \<or> (216 \<le> r \<and> r \<le> 222)
      else Upper r)"

text \<open>The conversion \<open>byte(c)\<close> of a rune keeps its low eight bits.\<close>

definition byte :: "rune \<Rightarrow> char" where
  "byte r = char_of (r mod 256)"

text \<open>\<open>%d\<close> of \<open>fmt\<close>: the decimal digits, with a minus sign for a negative number.\<close>

definition digit :: "nat \<Rightarrow> char" where
  "digit d = char_of (48 + d)"

function decimal :: "nat \<Rightarrow> string" where
  "decimal n = (if n < 10 then [digit n] else decimal (n div 10) @ [digit (n mod 10)])"
  by pat_completeness auto
termination
  by (relation "measure id") auto

declare decimal.simps [simp del]

definition itoa :: "int \<Rightarrow> string" where
  "itoa i = (if i < 0 then CHR ''-'' # decimal (nat (- i)) else decimal (nat i))"

section \<open>FieldEscape\<close>

text \<open>
  The loop of \<open>FieldEscape\<close> over the runes of \<open>k\<close>, with its flag \<open>up\<close> and its buffer.
  A rune is at most \<open>0x10FFFF\<close>, so \<open>c += 32\<close> does not overflow the \<open>int32\<close>.
\<close>

fun FieldEscape_loop :: "(rune \<Rightarrow> bool) \<Rightarrow> rune list \<Rightarrow> bool \<Rightarrow> string \<Rightarrow> string" where
  "FieldEscape_loop Upper [] up buf = buf"
| "FieldEscape_loop Upper (c # cs) up buf =
     (if IsUpper Upper c
      then FieldEscape_loop Upper cs True ((if \<not> up then buf @ ''_'' else buf) @ [byte (c + 32)])
      else FieldEscape_loop Upper cs False (buf @ [byte c]))"

definition FieldEscape :: "(rune \<Rightarrow> bool) \<Rightarrow> string \<Rightarrow> string" where
  "FieldEscape Upper k = FieldEscape_loop Upper (runes k) True []"

section \<open>Errors, panics and the reflected shape of a record\<close>

text \<open>
  An \<open>error\<close> value of the package: one made by \<open>fmt.Errorf\<close> (its message), the
  package's own \<open>ErrNotFound\<close>, an error handed back by \<open>database/sql\<close> (its
  message), or any of these wrapped by \<open>errors.Trace\<close>, which records the call site and
  keeps the cause. \<open>ErrNotFound\<close> is a variable of this package that \<open>database/sql\<close>
  does not know: what the storage handle reports is always a \<open>DriverError\<close>.
\<close>

datatype error = Errorf string | ErrNotFound | DriverError string | Trace error

fun Cause :: "error \<Rightarrow> error" where
  "Cause (Trace e) = Cause e"
| "Cause e = e"

text \<open>
  The run-time panics within reach of the package: a method call on the nil
  \<open>reflect.Type\<close> that \<open>reflect.TypeOf(nil)\<close> returns, \<open>NumField\<close> of a type that is not
  a struct, \<open>Field\<close>, \<open>Len\<close> or \<open>Append\<close> on a \<open>reflect.Value\<close> of the wrong kind (the
  zero Value included), a field index out of range, and \<open>Interface\<close> on a Value reached
  through an unexported field or on the zero Value.
\<close>

datatype panic =
    NilTypeDereference
  | NumFieldOfNonStruct
  | FieldOfNonStruct
  | FieldIndexOutOfRange
  | InterfaceOfUnexportedField
  | LenOfNonSlice
  | AppendToNonSlice
  | InterfaceOfZeroValue

datatype 'a outcome = Return 'a | Panic panic

text \<open>
  \<open>reflect.StructField\<close>, with the four members the package reads. A struct tag is the
  list of its \<open>key:"value"\<close> pairs; \<open>Tag.Get\<close> gives the value of the first pair with the
  key, and the empty string when there is none.
\<close>

record StructField =
  Name :: string
  PkgPath :: string
  Tag :: "(string \<times> string) list"
  Anonymous :: bool

definition Get :: "(string \<times> string) list \<Rightarrow> string \<Rightarrow> string" where
  "Get tag key = (case map_of tag key of None \<Rightarrow> [] | Some v \<Rightarrow> v)"

text \<open>
  \<open>reflect.Type\<close>, as far as the package looks into it: a struct with its fields, a
  pointer, a slice, or a type of any other kind, given by the name of its kind.
\<close>

datatype go_type =
    TStruct "StructField list"
  | TPtr go_type
  | TSlice go_type
  | TOther string

datatype reflect_Kind = Invalid | Ptr | Slice | Struct | OtherKind string

fun Kind :: "go_type \<Rightarrow> reflect_Kind" where
  "Kind (TStruct fs) = Struct"
| "Kind (TPtr t) = Ptr"
| "Kind (TSlice t) = Slice"
| "Kind (TOther k) = OtherKind k"

fun KindString :: "reflect_Kind \<Rightarrow> string" where
  "KindString Invalid = ''invalid''"
| "KindString Ptr = ''ptr''"
| "KindString Slice = ''slice''"
| "KindString Struct = ''struct''"
| "KindString (OtherKind k) = k"

fun NumField :: "go_type \<Rightarrow> nat outcome" where
  "NumField (TStruct fs) = Return (length fs)"
| "NumField t = Panic NumFieldOfNonStruct"

text \<open>
  Values. \<open>Zero\<close> is the zero value of whatever type the place has (the nil pointer, the
  nil slice, a field that \<open>reflect.New\<close> has just allocated); \<open>Val\<close> is a value that is
  not looked into, as the driver takes or delivers it; a struct is the list of its field
  values in declaration order, a slice the list of its elements, a non-nil pointer the
  content of the variable it points to. Go pairs a value with a type that it fits;
  where a function below is given a value of another shape than its type, it reads
  it as the zero value.
\<close>

datatype 'v go_value =
    Zero
  | Val 'v
  | StructV "'v go_value list"
  | SliceV "'v go_value list"
  | PtrV "'v go_value"

text \<open>
  An argument of type \<open>interface{}\<close>: \<open>None\<close> is the nil interface, otherwise the
  dynamic type and the value.
\<close>

type_synonym 'v iface = "(go_type \<times> 'v go_value) option"

definition TypeOf :: "'v iface \<Rightarrow> go_type option" where
  "TypeOf i = map_option fst i"

text \<open>
  \<open>reflect.Value\<close>: the zero Value, or a value with its type. \<open>Value_Elem\<close> is \<open>Elem\<close>
  on a Value of pointer kind (the package calls it after it has tested the kind, on
  nothing else): the zero Value for a nil pointer.
\<close>

datatype 'v Value = ZeroValue | Valid go_type "'v go_value"

definition ValueOf :: "'v iface \<Rightarrow> 'v Value" where
  "ValueOf i = (case i of None \<Rightarrow> ZeroValue | Some (t, v) \<Rightarrow> Valid t v)"

fun Value_Elem :: "'v Value \<Rightarrow> 'v Value" where
  "Value_Elem (Valid (TPtr t) (PtrV x)) = Valid t x"
| "Value_Elem v = ZeroValue"

fun Value_Kind :: "'v Value \<Rightarrow> reflect_Kind" where
  "Value_Kind ZeroValue = Invalid"
| "Value_Kind (Valid t v) = Kind t"

text \<open>
  \<open>rv.Field(i).Interface()\<close>: \<open>Field\<close> panics unless the Value is a struct with more
  than \<open>i\<close> fields, and \<open>Interface\<close> panics on a field whose name is unexported, which
  is one whose \<open>PkgPath\<close> is not empty. A field of a zero struct is zero.
\<close>

fun Field_Interface :: "'v Value \<Rightarrow> nat \<Rightarrow> 'v go_value outcome" where
  "Field_Interface (Valid (TStruct fs) v) i =
     (if length fs \<le> i then Panic FieldIndexOutOfRange
      else if PkgPath (fs ! i) \<noteq> [] then Panic InterfaceOfUnexportedField
      else Return (case v of StructV vs \<Rightarrow> (if i < length vs then vs ! i else Zero) | _ \<Rightarrow> Zero))"
| "Field_Interface v i = Panic FieldOfNonStruct"

section \<open>The storage handle\<close>

text \<open>
  \<open>*sql.DB\<close> is used through \<open>Query\<close> and \<open>Exec\<close>; the handle of a descriptor is taken
  to be a working one, not nil. Each operation of the package calls it once, so the
  handle is the answer it gives to a statement: an error, or the rows of a cursor
  (\<open>Exec\<close>: the \<open>sql.Result\<close>, whose two methods each return a number and an error).
  A column of a row is the outcome of converting it into its destination: the value
  stored there, or the error of the conversion. The errors of the handle are given by
  their messages.

  \<open>rows.Next()\<close> returns false after the last row, and also when the cursor fails
  (the connection is lost, the context is cancelled); \<open>rows.Err()\<close> tells the two
  apart. The rows of a cursor are the rows it delivers before \<open>Next\<close> returns false,
  and \<open>Rows_Err\<close> is what \<open>rows.Err()\<close> reports then: \<open>None\<close> after the last row, or
  the failure that stopped the cursor.
\<close>

type_synonym 'v row = "(string + 'v) list"

record Result =
  LastInsertId :: "int \<times> string option"
  RowsAffected :: "int \<times> string option"

record 'v DB =
  DB_Query :: "string \<Rightarrow> string + 'v row list"
  DB_Exec :: "string \<Rightarrow> 'v go_value list \<Rightarrow> string + Result"
  Rows_Err :: "string \<Rightarrow> string option"

text \<open>What reaches the handle and its cursor, in program order.\<close>

datatype 'v event =
    DBQuery string
  | DBExec string "'v go_value list"
  | RowsNext
  | RowsScan nat
  | RowsClose

section \<open>Stmt\<close>

text \<open>
  The fields \<open>where\<close>, \<open>sort\<close>, \<open>order\<close> and \<open>group\<close> carry a prime, since their names
  are taken in Isabelle/HOL. \<open>offset\<close> and \<open>limit\<close> are Go \<open>int\<close>s; the package compares
  them with 0 and prints them, and computes nothing with them.
\<close>

record 'v Stmt =
  table :: string
  where' :: string
  sort' :: string
  order' :: string
  group' :: string
  offset :: int
  limit :: int
  db :: "'v DB"

definition NewStmt :: "'v DB \<Rightarrow> string \<Rightarrow> 'v Stmt" where
  "NewStmt d t = \<lparr>table = t, where' = [], sort' = [], order' = [], group' = [],
     offset = 0, limit = 0, db = d\<rparr>"

text \<open>
  The setters return the descriptor they changed. \<open>Where\<close> is the call without
  format arguments, which stores the text as it is.
\<close>

definition Where :: "'v Stmt \<Rightarrow> string \<Rightarrow> 'v Stmt" where
  "Where s f = s\<lparr>where' := f\<rparr>"

definition Sort :: "'v Stmt \<Rightarrow> string \<Rightarrow> 'v Stmt" where
  "Sort s x = s\<lparr>sort' := x\<rparr>"

definition Group :: "'v Stmt \<Rightarrow> string \<Rightarrow> 'v Stmt" where
  "Group s x = s\<lparr>group' := x\<rparr>"

definition Order :: "'v Stmt \<Rightarrow> string \<Rightarrow> 'v Stmt" where
  "Order s x = s\<lparr>order' := x\<rparr>"

definition Offset :: "'v Stmt \<Rightarrow> int \<Rightarrow> 'v Stmt" where
  "Offset s n = s\<lparr>offset := n\<rparr>"

definition Limit :: "'v Stmt \<Rightarrow> int \<Rightarrow> 'v Stmt" where
  "Limit s n = s\<lparr>limit := n\<rparr>"

text \<open>\<open>SQLCondition\<close> appends to the buffer it is given; the result is the new content.\<close>

definition SQLCondition :: "'v Stmt \<Rightarrow> string \<Rightarrow> string" where
  "SQLCondition s bs =
     (let bs1 = (if where' s \<noteq> [] then bs @ '' where '' @ where' s else bs);
          bs2 = (if sort' s \<noteq> []
                 then (let b = bs1 @ '' order by '' @ sort' s
                       in if order' s \<noteq> [] then b @ '' '' @ order' s else b)
                 else bs1);
          bs3 = (if group' s \<noteq> [] then bs2 @ '' group by '' @ group' s else bs2)
      in if 0 < limit s
         then (let b = bs3 @ '' limit '';
                   b' = (if 0 < offset s then b @ itoa (offset s) @ '','' else b)
               in b' @ itoa (limit s))
         else bs3)"

section \<open>Column names and the query compiler\<close>

text \<open>
  \<open>SQLQuery\<close>, \<open>SQLInsert\<close> and \<open>SQLUpdate\<close> each resolve the column of a field with the
  same three lines: the tag \<open>db\<close>, and \<open>FieldEscape\<close> of the field's name when the tag
  is empty. \<open>unexported\<close> is the test that makes each of them skip a field.
\<close>

definition column_name :: "(rune \<Rightarrow> bool) \<Rightarrow> StructField \<Rightarrow> string" where
  "column_name Upper f =
     (let name = Get (Tag f) ''db'' in if name = [] then FieldEscape Upper (Name f) else name)"

definition unexported :: "StructField \<Rightarrow> bool" where
  "unexported f = (PkgPath f \<noteq> [] \<and> \<not> Anonymous f)"

text \<open>
  \<open>bs.Truncate(bs.Len() - 2)\<close> drops the last two bytes. \<open>bytes.Buffer.Truncate\<close>
  panics on a negative length; the package truncates buffers that hold at least
  their opening keyword, which is longer than two bytes (\<open>truncations_in_range\<close>
  below).
\<close>

definition Truncate2 :: "string \<Rightarrow> string" where
  "Truncate2 bs = take (length bs - 2) bs"

fun SQLQuery_loop :: "(rune \<Rightarrow> bool) \<Rightarrow> string \<Rightarrow> StructField list \<Rightarrow> string \<Rightarrow> string" where
  "SQLQuery_loop Upper firstTable [] bs = bs"
| "SQLQuery_loop Upper firstTable (f # fs) bs =
     (if unexported f then SQLQuery_loop Upper firstTable fs bs
      else
        let name = column_name Upper f;
            bs1 = (if CHR ''.'' \<notin> set name then bs @ firstTable @ ''.'' else bs)
        in SQLQuery_loop Upper firstTable fs (bs1 @ name @ '', ''))"

definition SQLQuery :: "(rune \<Rightarrow> bool) \<Rightarrow> 'v Stmt \<Rightarrow> go_type \<Rightarrow> string outcome" where
  "SQLQuery Upper s rt =
     (case rt of
        TStruct fs \<Rightarrow>
          let firstTable = takeWhile (\<lambda>c. c \<noteq> CHR '','') (table s);
              bs = SQLQuery_loop Upper firstTable fs ''select '';
              bs1 = Truncate2 bs @ '' from '' @ table s
          in Return (SQLCondition s bs1)
      | _ \<Rightarrow> Panic NumFieldOfNonStruct)"

text \<open>
  \<open>SQLQueryBuilder\<close> returns the statement and an error, and it may have changed the
  descriptor it was called on: the model returns the descriptor as well.
\<close>

definition SQLQueryBuilder ::
  "(rune \<Rightarrow> bool) \<Rightarrow> 'v Stmt \<Rightarrow> 'v iface \<Rightarrow> 'v Stmt \<times> (string \<times> error option) outcome" where
  "SQLQueryBuilder Upper s result =
     (case TypeOf result of
        None \<Rightarrow> (s, Panic NilTypeDereference)
      | Some rt \<Rightarrow>
          (case rt of
             TPtr rt1 \<Rightarrow>
               let (rt2, s1) = (case rt1 of TSlice e \<Rightarrow> (e, s) | _ \<Rightarrow> (rt1, s\<lparr>limit := 1\<rparr>)) in
               (case NumField rt2 of
                  Panic p \<Rightarrow> (s1, Panic p)
                | Return n \<Rightarrow>
                    if n = 0 then (s1, Return ([], Some (Errorf ''result not found field'')))
                    else (case SQLQuery Upper s1 rt2 of
                            Panic p \<Rightarrow> (s1, Panic p)
                          | Return sql \<Rightarrow> (s1, Return (sql, None))))
           | _ \<Rightarrow>
               (s, Return ([], Some (Errorf (''result type must be ptr, recv:''
                                              @ KindString (Kind rt)))))))"

section \<open>Query\<close>

text \<open>
  For each row \<open>Query\<close> allocates a record with \<open>reflect.New\<close> and collects one
  destination per field that is not skipped, through \<open>Field(i).Addr().Interface()\<close>.
  \<open>scan_refs\<close> is the number of destinations; taking the address out of reflection
  panics for a field with an unexported name.
\<close>

fun scan_refs :: "StructField list \<Rightarrow> nat outcome" where
  "scan_refs [] = Return 0"
| "scan_refs (f # fs) =
     (if unexported f then scan_refs fs
      else if PkgPath f \<noteq> [] then Panic InterfaceOfUnexportedField
      else (case scan_refs fs of Panic p \<Rightarrow> Panic p | Return n \<Rightarrow> Return (Suc n)))"

text \<open>
  \<open>rows.Scan\<close> refuses a number of destinations that is not the number of columns,
  and stops at the first column that does not convert.
\<close>

fun convert :: "'v row \<Rightarrow> string + 'v list" where
  "convert [] = Inr []"
| "convert (c # cs) =
     (case c of
        Inl e \<Rightarrow> Inl e
      | Inr v \<Rightarrow> (case convert cs of Inl e \<Rightarrow> Inl e | Inr vs \<Rightarrow> Inr (v # vs)))"

definition Scan :: "'v row \<Rightarrow> nat \<Rightarrow> string + 'v list" where
  "Scan r n =
     (if length r \<noteq> n
      then Inl (''sql: expected '' @ itoa (int (length r))
                  @ '' destination arguments in Scan, not '' @ itoa (int n))
      else convert r)"

text \<open>
  The record after a successful scan: the scanned values in the fields that have a
  destination, in declaration order, and the zero value in the skipped fields.
\<close>

fun fill :: "StructField list \<Rightarrow> 'v list \<Rightarrow> 'v go_value list" where
  "fill [] vs = []"
| "fill (f # fs) vs =
     (if unexported f then Zero # fill fs vs
      else (case vs of [] \<Rightarrow> Zero # fill fs [] | v # vs' \<Rightarrow> Val v # fill fs vs'))"

fun elements :: "'v go_value \<Rightarrow> 'v go_value list" where
  "elements (SliceV xs) = xs"
| "elements v = []"

text \<open>
  \<open>reflect.Append\<close> and \<open>Len\<close>, which \<open>Query\<close> calls on the Value its target points to:
  a slice, a struct or, for a nil pointer, the zero Value.
\<close>

fun Append :: "'v Value \<Rightarrow> 'v go_value \<Rightarrow> 'v Value outcome" where
  "Append (Valid (TSlice t) v) x = Return (Valid (TSlice t) (SliceV (elements v @ [x])))"
| "Append v x = Panic AppendToNonSlice"

fun Len :: "'v Value \<Rightarrow> nat outcome" where
  "Len (Valid (TSlice t) v) = Return (length (elements v))"
| "Len v = Panic LenOfNonSlice"

fun Interface :: "'v Value \<Rightarrow> 'v go_value outcome" where
  "Interface (Valid t v) = Return v"
| "Interface ZeroValue = Panic InterfaceOfZeroValue"

text \<open>
  \<open>reflect.ValueOf(result).Elem().Set(x)\<close>: the variable behind the pointer becomes \<open>x\<close>.
  \<open>Query\<close> gets there with a target that has a type, never with the nil interface.
\<close>

fun Set :: "'v iface \<Rightarrow> 'v go_value \<Rightarrow> 'v iface" where
  "Set (Some (t, v)) x = Some (t, PtrV x)"
| "Set None x = None"

text \<open>
  The loop \<open>for rows.Next()\<close> on the rows that are left, with the Value \<open>rv\<close>. It ends
  in one of four ways: the first record is handed over for the struct target, \<open>Scan\<close>
  fails, reflection panics, or \<open>rows.Next()\<close> returns false, with \<open>rv\<close> as it then is.
  The loop does not tell the end of the rows from a failure of the cursor, and
  \<open>Query\<close> does not call \<open>rows.Err()\<close> after it: \<open>Rows_Err\<close> is read nowhere. The
  events on the cursor are returned with it.
\<close>

datatype 'v loop_exit =
    First "'v go_value"
  | Failed error
  | Panicked panic
  | Exhausted "'v Value"

fun rows_loop ::
  "StructField list \<Rightarrow> 'v row list \<Rightarrow> 'v Value \<Rightarrow> 'v loop_exit \<times> 'v event list" where
  "rows_loop fs [] rv = (Exhausted rv, [RowsNext])"
| "rows_loop fs (r # rows) rv =
     (case scan_refs fs of
        Panic p \<Rightarrow> (Panicked p, [RowsNext])
      | Return n \<Rightarrow>
          (case Scan r n of
             Inl err \<Rightarrow> (Failed (Trace (DriverError err)), [RowsNext, RowsScan n])
           | Inr vs \<Rightarrow>
               if Value_Kind rv = Struct then (First (StructV (fill fs vs)), [RowsNext, RowsScan n])
               else (case Append rv (StructV (fill fs vs)) of
                       Panic p \<Rightarrow> (Panicked p, [RowsNext, RowsScan n])
                     | Return rv' \<Rightarrow>
                         (case rows_loop fs rows rv' of
                            (x, tr) \<Rightarrow> (x, RowsNext # RowsScan n # tr)))))"

text \<open>
  What a call of \<open>Query\<close> leaves behind: the descriptor, the target, the events on the
  storage handle, and the error it returns (\<open>None\<close> is \<open>nil\<close>) or its panic.
  \<open>log.Debugf\<close> is not modelled.
\<close>

record 'v run =
  stmt_after :: "'v Stmt"
  result_after :: "'v iface"
  trace :: "'v event list"
  returned :: "error option outcome"

definition fields_of :: "go_type \<Rightarrow> StructField list" where
  "fields_of t = (case t of TStruct fs \<Rightarrow> fs | _ \<Rightarrow> [])"

definition Query :: "(rune \<Rightarrow> bool) \<Rightarrow> 'v Stmt \<Rightarrow> 'v iface \<Rightarrow> 'v run" where
  "Query Upper s result =
     (case TypeOf result of
        None \<Rightarrow>
          \<lparr>stmt_after = s, result_after = result, trace = [], returned = Panic NilTypeDereference\<rparr>
      | Some rt \<Rightarrow>
          (case rt of
             TPtr rt1 \<Rightarrow>
               let (rt2, s1) = (case rt1 of TSlice e \<Rightarrow> (e, s) | _ \<Rightarrow> (rt1, s\<lparr>limit := 1\<rparr>)) in
               (case NumField rt2 of
                  Panic p \<Rightarrow>
                    \<lparr>stmt_after = s1, result_after = result, trace = [], returned = Panic p\<rparr>
                | Return n \<Rightarrow>
                    if n = 0
                    then \<lparr>stmt_after = s1, result_after = result, trace = [],
                           returned = Return (Some (Errorf ''result not found field''))\<rparr>
                    else
                      (case SQLQuery Upper s1 rt2 of
                         Panic p \<Rightarrow>
                           \<lparr>stmt_after = s1, result_after = result, trace = [], returned = Panic p\<rparr>
                       | Return sql \<Rightarrow>
                           (case DB_Query (db s1) sql of
                              Inl err \<Rightarrow>
                                \<lparr>stmt_after = s1, result_after = result, trace = [DBQuery sql],
                                  returned = Return (Some (Trace (DriverError err)))\<rparr>
                            | Inr rows \<Rightarrow>
                                let rv = Value_Elem (ValueOf result) in
                                (case rows_loop (fields_of rt2) rows rv of
                                   (First obj, tr) \<Rightarrow>
                                     \<lparr>stmt_after = s1, result_after = Set result obj,
                                       trace = DBQuery sql # tr @ [RowsClose],
                                       returned = Return None\<rparr>
                                 | (Failed e, tr) \<Rightarrow>
                                     \<lparr>stmt_after = s1, result_after = result,
                                       trace = DBQuery sql # tr @ [RowsClose],
                                       returned = Return (Some e)\<rparr>
                                 | (Panicked p, tr) \<Rightarrow>
                                     \<lparr>stmt_after = s1, result_after = result,
                                       trace = DBQuery sql # tr @ [RowsClose],
                                       returned = Panic p\<rparr>
                                 | (Exhausted rv', tr) \<Rightarrow>
                                     if Value_Kind rv' = Struct
                                     then \<lparr>stmt_after = s1, result_after = result,
                                            trace = DBQuery sql # tr @ [RowsClose],
                                            returned = Return (Some (Trace ErrNotFound))\<rparr>
                                     else
                                       (case Len rv' of
                                          Panic p \<Rightarrow>
                                            \<lparr>stmt_after = s1, result_after = result,
                                              trace = DBQuery sql # tr @ [RowsClose],
                                              returned = Panic p\<rparr>
                                        | Return l \<Rightarrow>
                                            if l = 0
                                            then \<lparr>stmt_after = s1, result_after = result,
                                                   trace = DBQuery sql # tr @ [RowsClose],
                                                   returned = Return (Some (Trace ErrNotFound))\<rparr>
                                            else
                                              (case Interface rv' of
                                                 Panic p \<Rightarrow>
                                                   \<lparr>stmt_after = s1, result_after = result,
                                                     trace = DBQuery sql # tr @ [RowsClose],
                                                     returned = Panic p\<rparr>
                                               | Return v \<Rightarrow>
                                                   \<lparr>stmt_after = s1,
                                                     result_after = Set result v,
                                                     trace = DBQuery sql # tr @ [RowsClose],
                                                     returned = Return None\<rparr>))))))
           | _ \<Rightarrow>
               \<lparr>stmt_after = s, result_after = result, trace = [],
                 returned = Return (Some (Errorf (''result type must be ptr, recv:''
                                                   @ KindString (Kind rt))))\<rparr>))"

section \<open>The mutation compilers, Insert and Update\<close>

text \<open>
  The loops of \<open>SQLInsert\<close> and \<open>SQLUpdate\<close> over the fields with their indices. The
  state of \<open>SQLInsert\<close> is the buffer of the column list, the buffer of the value list
  and the bound arguments; \<open>SQLUpdate\<close> has one buffer.
\<close>

fun SQLInsert_loop ::
  "(rune \<Rightarrow> bool) \<Rightarrow> 'v Value \<Rightarrow> (nat \<times> StructField) list
     \<Rightarrow> string \<times> string \<times> 'v go_value list \<Rightarrow> (string \<times> string \<times> 'v go_value list) outcome" where
  "SQLInsert_loop Upper rv [] acc = Return acc"
| "SQLInsert_loop Upper rv ((i, f) # fs) (bs, dbs, refs) =
     (if unexported f then SQLInsert_loop Upper rv fs (bs, dbs, refs)
      else
        let def = Get (Tag f) ''db_default'' in
        if def = ''auto'' then SQLInsert_loop Upper rv fs (bs, dbs, refs)
        else
          let bs1 = bs @ column_name Upper f @ '', '' in
          if def \<noteq> [] then SQLInsert_loop Upper rv fs (bs1, dbs @ def @ '', '', refs)
          else (case Field_Interface rv i of
                  Panic p \<Rightarrow> Panic p
                | Return x \<Rightarrow> SQLInsert_loop Upper rv fs (bs1, dbs @ ''?, '', refs @ [x])))"

definition SQLInsert ::
  "(rune \<Rightarrow> bool) \<Rightarrow> 'v Stmt \<Rightarrow> go_type \<Rightarrow> 'v Value \<Rightarrow> (string \<times> 'v go_value list) outcome" where
  "SQLInsert Upper s rt rv =
     (case rt of
        TStruct fs \<Rightarrow>
          (case SQLInsert_loop Upper rv (enumerate 0 fs)
                  (''insert into '' @ table s @ '' ('', '') values ('', []) of
             Panic p \<Rightarrow> Panic p
           | Return (bs, dbs, refs) \<Rightarrow> Return (Truncate2 bs @ Truncate2 dbs @ '') '', refs))
      | _ \<Rightarrow> Panic NumFieldOfNonStruct)"

fun SQLUpdate_loop ::
  "(rune \<Rightarrow> bool) \<Rightarrow> 'v Value \<Rightarrow> (nat \<times> StructField) list
     \<Rightarrow> string \<times> 'v go_value list \<Rightarrow> (string \<times> 'v go_value list) outcome" where
  "SQLUpdate_loop Upper rv [] acc = Return acc"
| "SQLUpdate_loop Upper rv ((i, f) # fs) (bs, refs) =
     (if unexported f then SQLUpdate_loop Upper rv fs (bs, refs)
      else
        let def = Get (Tag f) ''db_default'' in
        if def = ''auto'' then SQLUpdate_loop Upper rv fs (bs, refs)
        else
          let bs1 = bs @ ''`'' @ column_name Upper f @ ''`='' in
          if def \<noteq> [] then SQLUpdate_loop Upper rv fs (bs1 @ def @ '', '', refs)
          else (case Field_Interface rv i of
                  Panic p \<Rightarrow> Panic p
                | Return x \<Rightarrow> SQLUpdate_loop Upper rv fs (bs1 @ ''?, '', refs @ [x])))"

definition SQLUpdate ::
  "(rune \<Rightarrow> bool) \<Rightarrow> 'v Stmt \<Rightarrow> go_type \<Rightarrow> 'v Value \<Rightarrow> (string \<times> 'v go_value list) outcome" where
  "SQLUpdate Upper s rt rv =
     (case rt of
        TStruct fs \<Rightarrow>
          (case SQLUpdate_loop Upper rv (enumerate 0 fs)
                  (''update `'' @ table s @ ''` set '', []) of
             Panic p \<Rightarrow> Panic p
           | Return (bs, refs) \<Rightarrow> Return (SQLCondition s (Truncate2 bs), refs))
      | _ \<Rightarrow> Panic NumFieldOfNonStruct)"

text \<open>
  \<open>Update\<close> and \<open>Insert\<close> take the record or a pointer to it; \<open>deref\<close> is the step
  that both open with, \<open>rt = rt.Elem()\<close> and \<open>rv = rv.Elem()\<close> for a pointer. They
  return the events on the storage handle and the pair of a number and an error, or
  the panic.
\<close>

definition deref :: "'v iface \<Rightarrow> go_type \<Rightarrow> go_type \<times> 'v Value" where
  "deref data rt =
     (case rt of
        TPtr t \<Rightarrow> (t, Value_Elem (ValueOf data))
      | _ \<Rightarrow> (rt, ValueOf data))"

definition Update ::
  "(rune \<Rightarrow> bool) \<Rightarrow> 'v Stmt \<Rightarrow> 'v iface \<Rightarrow> 'v event list \<times> (int \<times> error option) outcome" where
  "Update Upper s data =
     (case TypeOf data of
        None \<Rightarrow> ([], Panic NilTypeDereference)
      | Some rt0 \<Rightarrow>
          (case deref data rt0 of
             (rt, rv) \<Rightarrow>
               (case NumField rt of
                  Panic p \<Rightarrow> ([], Panic p)
                | Return n \<Rightarrow>
                    if n = 0 then ([], Return (0, Some (Errorf ''data not found field'')))
                    else
                      (case SQLUpdate Upper s rt rv of
                         Panic p \<Rightarrow> ([], Panic p)
                       | Return (sql, refs) \<Rightarrow>
                           (case DB_Exec (db s) sql refs of
                              Inl err \<Rightarrow>
                                ([DBExec sql refs], Return (0, Some (Trace (DriverError err))))
                            | Inr r \<Rightarrow>
                                ([DBExec sql refs], Return (map_prod id (map_option DriverError)
                                                             (RowsAffected r))))))))"

definition Insert ::
  "(rune \<Rightarrow> bool) \<Rightarrow> 'v Stmt \<Rightarrow> 'v iface \<Rightarrow> 'v event list \<times> (int \<times> error option) outcome" where
  "Insert Upper s data =
     (case TypeOf data of
        None \<Rightarrow> ([], Panic NilTypeDereference)
      | Some rt0 \<Rightarrow>
          (case deref data rt0 of
             (rt, rv) \<Rightarrow>
               (case NumField rt of
                  Panic p \<Rightarrow> ([], Panic p)
                | Return n \<Rightarrow>
                    if n = 0 then ([], Return (0, Some (Errorf ''data not found field'')))
                    else
                      (case SQLInsert Upper s rt rv of
                         Panic p \<Rightarrow> ([], Panic p)
                       | Return (sql, refs) \<Rightarrow>
                           (case DB_Exec (db s) sql refs of
                              Inl err \<Rightarrow>
                                ([DBExec sql refs], Return (0, Some (Trace (DriverError err))))
                            | Inr r \<Rightarrow>
                                ([DBExec sql refs], Return (map_prod id (map_option DriverError)
                                                             (LastInsertId r))))))))"

section \<open>Concrete inputs\<close>

text \<open>
  A table \<open>unicode.Upper\<close> is needed to run the model. The names of the concrete inputs
  below stay within Latin-1, where \<open>IsUpper\<close> does not consult it; \<open>no_Upper\<close> stands
  in for it there.
\<close>

definition no_Upper :: "rune \<Rightarrow> bool" where
  "no_Upper r = False"

definition exported_field :: "string \<Rightarrow> (string \<times> string) list \<Rightarrow> StructField" where
  "exported_field n tg = \<lparr>Name = n, PkgPath = [], Tag = tg, Anonymous = False\<rparr>"

text \<open>
  A storage handle that answers every query with the given rows and every \<open>Exec\<close> with
  one affected row and the generated id 1; a descriptor on the table \<open>users\<close> with that
  handle; and some fields.
\<close>

definition db_of :: "string row list \<Rightarrow> string DB" where
  "db_of rows = \<lparr>DB_Query = (\<lambda>q. Inr rows),
     DB_Exec = (\<lambda>q args. Inr \<lparr>LastInsertId = (1, None), RowsAffected = (1, None)\<rparr>),
     Rows_Err = (\<lambda>q. None)\<rparr>"

definition users :: "string row list \<Rightarrow> string Stmt" where
  "users rows = NewStmt (db_of rows) ''users''"

text \<open>A storage handle that refuses every statement, and a descriptor with it.\<close>

definition db_failing :: "string \<Rightarrow> string DB" where
  "db_failing msg = \<lparr>DB_Query = (\<lambda>q. Inl msg), DB_Exec = (\<lambda>q args. Inl msg),
     Rows_Err = (\<lambda>q. None)\<rparr>"

definition users_offline :: "string Stmt" where
  "users_offline = NewStmt (db_failing ''connection refused'') ''users''"

text \<open>
  A storage handle that accepts every query and whose cursor fails after it has
  delivered the given rows, and a descriptor with it.
\<close>

definition db_dropping :: "string row list \<Rightarrow> string DB" where
  "db_dropping rows = \<lparr>DB_Query = (\<lambda>q. Inr rows),
     DB_Exec = (\<lambda>q args. Inl ''driver: bad connection''),
     Rows_Err = (\<lambda>q. Some ''driver: bad connection'')\<rparr>"

definition users_dropped :: "string row list \<Rightarrow> string Stmt" where
  "users_dropped rows = NewStmt (db_dropping rows) ''users''"

definition id_field :: StructField where
  "id_field = exported_field ''ID'' []"

definition name_field :: StructField where
  "name_field = exported_field ''Name'' []"

text \<open>
  An unexported field, an embedded field of an unexported type, a field with the
  directive \<open>auto\<close>, a field with a literal default, and a record with its values.
\<close>

definition secret_field :: StructField where
  "secret_field = \<lparr>Name = ''secret'', PkgPath = ''orm'', Tag = [], Anonymous = False\<rparr>"

definition base_field :: StructField where
  "base_field = \<lparr>Name = ''base'', PkgPath = ''orm'', Tag = [], Anonymous = True\<rparr>"

definition auto_id_field :: StructField where
  "auto_id_field = exported_field ''ID'' [(''db_default'', ''auto'')]"

definition ctime_field :: StructField where
  "ctime_field = exported_field ''CTime'' [(''db_default'', ''now()'')]"

definition user_fields :: "StructField list" where
  "user_fields = [auto_id_field, name_field, secret_field, ctime_field,
                  exported_field ''Nick'' [(''db'', ''nick_name'')]]"

definition user_values :: "string go_value list" where
  "user_values = [Val ''7'', Val ''ann'', Val ''s3cr3t'', Val ''today'', Val ''annie'']"

section \<open>The name rule in the words of the specification\<close>

text \<open>
  \<open>resolveColumnName\<close> is written from the specification, not from the code: a
  non-empty tag is returned as it is; otherwise each upper case letter of the
  identifier is lowered, with an underscore before it unless it is the first character
  or follows another upper case letter, and every other character is kept. The letters
  are the ASCII letters: \<open>upper_letter\<close> is \<open>A..Z\<close>, and \<open>ascii\<close> holds of an identifier
  made of ASCII characters only.
\<close>

definition ascii :: "string \<Rightarrow> bool" where
  "ascii k = list_all (\<lambda>c. (of_char c :: nat) < 128) k"

definition upper_letter :: "char \<Rightarrow> bool" where
  "upper_letter c = (65 \<le> (of_char c :: nat) \<and> (of_char c :: nat) \<le> 90)"

definition lowered :: "char \<Rightarrow> char" where
  "lowered c = char_of ((of_char c :: nat) + 32)"

definition converted :: "string \<Rightarrow> nat \<Rightarrow> string" where
  "converted k i =
     (if upper_letter (k ! i)
      then (if i = 0 \<or> upper_letter (k ! (i - 1)) then [] else ''_'') @ [lowered (k ! i)]
      else [k ! i])"

definition snake_case :: "string \<Rightarrow> string" where
  "snake_case k = concat (map (converted k) [0..<length k])"

definition resolveColumnName :: "string \<Rightarrow> string \<Rightarrow> string" where
  "resolveColumnName identifier explicitTag =
     (if explicitTag \<noteq> [] then explicitTag else snake_case identifier)"

text \<open>
  The same conversion as a recursion along the identifier, with the flag of the loop:
  a stepping stone between the loop and \<open>snake_case\<close>.
\<close>

fun after :: "bool \<Rightarrow> string \<Rightarrow> string" where
  "after up [] = []"
| "after up (c # k) =
     (if upper_letter c then (if up then [] else ''_'') @ lowered c # after True k
      else c # after False k)"

section \<open>Notions of the specification used in the statements\<close>

text \<open>
  The clause \<open>LIMIT [<offset>,]<limit>\<close> for the limit 1, as \<open>SQLCondition\<close> renders it
  with the offset of \<open>s\<close>.
\<close>

definition limit_one :: "'v Stmt \<Rightarrow> string" where
  "limit_one s = '' limit '' @ (if 0 < offset s then itoa (offset s) @ '','' else []) @ ''1''"

text \<open>The fields that are not skipped, in declaration order.\<close>

definition mapped :: "StructField list \<Rightarrow> StructField list" where
  "mapped fs = filter (\<lambda>f. \<not> unexported f) fs"

text \<open>
  The default directive of a field; the fields that get a column in an insert or an
  update (mapped, and not \<open>auto\<close>); the fields whose value is bound as an argument
  (mapped, with no directive); the text in the value position of a field (its literal
  default, or the placeholder); the assignment of an update to the column of a field;
  the values of the bound fields, in declaration order; and a list of texts joined by
  a separator.
\<close>

definition default_of :: "StructField \<Rightarrow> string" where
  "default_of f = Get (Tag f) ''db_default''"

definition emitted :: "StructField list \<Rightarrow> StructField list" where
  "emitted fs = filter (\<lambda>f. \<not> unexported f \<and> default_of f \<noteq> ''auto'') fs"

definition bound :: "StructField \<Rightarrow> bool" where
  "bound f = (\<not> unexported f \<and> default_of f = [])"

definition value_text :: "StructField \<Rightarrow> string" where
  "value_text f = (if default_of f \<noteq> [] then default_of f else ''?'')"

definition assignment :: "(rune \<Rightarrow> bool) \<Rightarrow> StructField \<Rightarrow> string" where
  "assignment Upper f = ''`'' @ column_name Upper f @ ''`='' @ value_text f"

definition bound_args :: "StructField list \<Rightarrow> 'a list \<Rightarrow> 'a list" where
  "bound_args fs vs = map snd (filter (\<lambda>(f, v). bound f) (zip fs vs))"

fun join :: "string \<Rightarrow> string list \<Rightarrow> string" where
  "join sep [] = []"
| "join sep [x] = x"
| "join sep (x # y # ys) = x @ sep @ join sep (y # ys)"

section \<open>The buffers that are truncated\<close>

text \<open>
  The loops only append, so each buffer still holds its opening text when it is
  truncated by two bytes, and \<open>bytes.Buffer.Truncate\<close> is never called with a negative
  length.
\<close>

lemma SQLQuery_loop_grows: "length bs \<le> length (SQLQuery_loop Upper ft fs bs)"
proof (induction fs arbitrary: bs)
  case Nil
  then show ?case by simp
next
  case (Cons f fs)
  show ?case
  proof (cases "unexported f")
    case True
    then show ?thesis using Cons.IH [of bs] by simp
  next
    case False
    define bs' where
      "bs' = (if CHR ''.'' \<notin> set (column_name Upper f) then bs @ ft @ ''.'' else bs)
               @ column_name Upper f @ '', ''"
    have "length bs \<le> length bs'"
      by (simp add: bs'_def)
    also have "\<dots> \<le> length (SQLQuery_loop Upper ft fs bs')"
      by (rule Cons.IH)
    finally show ?thesis using False by (simp add: bs'_def Let_def)
  qed
qed

lemma SQLInsert_loop_grows:
  "SQLInsert_loop Upper rv ifs (bs, dbs, refs) = Return (bs', dbs', refs') \<Longrightarrow>
   length bs \<le> length bs' \<and> length dbs \<le> length dbs'"
proof (induction ifs arbitrary: bs dbs refs)
  case Nil
  then show ?case by simp
next
  case (Cons a ifs)
  obtain i f where a: "a = (i, f)" by (cases a)
  from Cons.prems show ?case
    unfolding a
    by (auto simp add: Let_def split: if_splits outcome.splits dest!: Cons.IH)
qed

lemma SQLUpdate_loop_grows:
  "SQLUpdate_loop Upper rv ifs (bs, refs) = Return (bs', refs') \<Longrightarrow> length bs \<le> length bs'"
proof (induction ifs arbitrary: bs refs)
  case Nil
  then show ?case by simp
next
  case (Cons a ifs)
  obtain i f where a: "a = (i, f)" by (cases a)
  from Cons.prems show ?case
    unfolding a
    by (auto simp add: Let_def split: if_splits outcome.splits dest!: Cons.IH)
qed

lemma truncations_in_range:
  "2 \<le> length (SQLQuery_loop Upper ft fs ''select '')
   \<and> (SQLInsert_loop Upper rv ifs (''insert into '' @ t @ '' ('', '') values ('', []) = Return (bs, dbs, refs)
        \<longrightarrow> 2 \<le> length bs \<and> 2 \<le> length dbs)
   \<and> (SQLUpdate_loop Upper rv ifs (''update `'' @ t @ ''` set '', []) = Return (bs, refs)
        \<longrightarrow> 2 \<le> length bs)"
proof (intro conjI impI)
  have "2 \<le> length ''select ''" by simp
  also have "\<dots> \<le> length (SQLQuery_loop Upper ft fs ''select '')"
    by (rule SQLQuery_loop_grows)
  finally show "2 \<le> length (SQLQuery_loop Upper ft fs ''select '')" .
next
  assume "SQLInsert_loop Upper rv ifs (''insert into '' @ t @ '' ('', '') values ('', []) = Return (bs, dbs, refs)"
  from SQLInsert_loop_grows [OF this] show "2 \<le> length bs" "2 \<le> length dbs"
    by simp_all
next
  assume "SQLUpdate_loop Upper rv ifs (''update `'' @ t @ ''` set '', []) = Return (bs, refs)"
  from SQLUpdate_loop_grows [OF this] show "2 \<le> length bs"
    by simp
qed

section \<open>Name resolution\<close>

lemma FieldEscape_HTTPStatus: "FieldEscape Upper ''HTTPStatus'' = ''httpstatus''"
  by code_simp

text \<open>
  C1. The claim is that a field named \<open>HTTPStatus\<close> with no \<open>db\<close> tag resolves to the
  column \<open>http_status\<close>. It does not: \<open>S\<close> comes right after the capital \<open>P\<close>, the flag
  \<open>up\<close> is still set, and no underscore is written. The column is \<open>httpstatus\<close>: the
  whole run of capitals \<open>HTTPS\<close> is lowered without an underscore inside or after it.
\<close>

theorem HTTPStatus_column:
  "Name f = ''HTTPStatus'' \<Longrightarrow> Get (Tag f) ''db'' = [] \<Longrightarrow> column_name Upper f = ''httpstatus''"
  by (simp add: column_name_def FieldEscape_HTTPStatus)

theorem HTTPStatus_column_witness:
  "column_name no_Upper (exported_field ''HTTPStatus'' []) = ''httpstatus''"
  using HTTPStatus_column [of "exported_field ''HTTPStatus'' []" no_Upper]
  by (simp add: exported_field_def Get_def)

theorem HTTPStatus_column_counterexample:
  "column_name no_Upper (exported_field ''HTTPStatus'' []) \<noteq> ''http_status''"
  by (simp add: column_name_def exported_field_def Get_def FieldEscape_HTTPStatus)

lemma DecodeRune_ascii: "(of_char c :: nat) < 128 \<Longrightarrow> DecodeRune c cs = (of_char c, 1)"
  by (simp add: DecodeRune_def)

lemma runes_ascii: "ascii k \<Longrightarrow> runes k = map of_char k"
  by (induction k) (simp_all add: DecodeRune_ascii ascii_def)

lemma IsUpper_ascii: "(of_char c :: nat) < 128 \<Longrightarrow> IsUpper Upper (of_char c) = upper_letter c"
  by (auto simp add: IsUpper_def upper_letter_def)

lemma byte_of_char: "byte (of_char c) = c"
  by (simp add: byte_def)

lemma byte_lowered: "upper_letter c \<Longrightarrow> byte (of_char c + 32) = lowered c"
  by (simp add: byte_def lowered_def upper_letter_def)

lemma FieldEscape_loop_ascii:
  "ascii k \<Longrightarrow> FieldEscape_loop Upper (map of_char k) up buf = buf @ after up k"
proof (induction k arbitrary: up buf)
  case Nil
  then show ?case by simp
next
  case (Cons c k)
  then have c: "(of_char c :: nat) < 128" and k: "ascii k"
    by (simp_all add: ascii_def)
  show ?case
    by (simp add: IsUpper_ascii [OF c] byte_of_char byte_lowered Cons.IH [OF k])
qed

lemma converted_Suc_Suc: "converted (p # c # k) (Suc (Suc i)) = converted (c # k) (Suc i)"
  by (simp add: converted_def)

lemma after_converted:
  "after (upper_letter p) k = concat (map (\<lambda>i. converted (p # k) (Suc i)) [0..<length k])"
proof (induction k arbitrary: p)
  case Nil
  then show ?case by simp
next
  case (Cons c k)
  have "concat (map (\<lambda>i. converted (p # c # k) (Suc i)) [0..<length (c # k)])
      = converted (p # c # k) (Suc 0)
          @ concat (map (\<lambda>i. converted (p # c # k) (Suc (Suc i))) [0..<length k])"
    by (simp add: upt_conv_Cons map_Suc_upt [symmetric] comp_def del: upt_Suc)
  also have "\<dots> = converted (p # c # k) (Suc 0) @ after (upper_letter c) k"
    by (simp add: converted_Suc_Suc Cons.IH)
  also have "\<dots> = after (upper_letter p) (c # k)"
    by (simp add: converted_def)
  finally show ?case by simp
qed

lemma after_snake_case: "after True k = snake_case k"
proof (cases k)
  case Nil
  then show ?thesis by (simp add: snake_case_def)
next
  case (Cons c k')
  have "snake_case (c # k')
      = converted (c # k') 0 @ concat (map (\<lambda>i. converted (c # k') (Suc i)) [0..<length k'])"
    by (simp add: snake_case_def upt_conv_Cons map_Suc_upt [symmetric] comp_def del: upt_Suc)
  also have "\<dots> = converted (c # k') 0 @ after (upper_letter c) k'"
    by (simp add: after_converted)
  also have "\<dots> = after True (c # k')"
    by (simp add: converted_def)
  finally show ?thesis using Cons by simp
qed

lemma FieldEscape_ascii: "ascii k \<Longrightarrow> FieldEscape Upper k = snake_case k"
  by (simp add: FieldEscape_def runes_ascii FieldEscape_loop_ascii after_snake_case)

lemma snake_case_UserID: "snake_case ''UserID'' = ''user_id''"
  by code_simp

lemma snake_case_id: "snake_case ''id'' = ''id''"
  by code_simp

lemma ascii_UserID: "ascii ''UserID''"
  by code_simp

lemma ascii_id: "ascii ''id''"
  by code_simp

lemma column_name_e_acute:
  "column_name no_Upper (exported_field [CHR 0xC3, CHR 0xA9] []) = [CHR 0xE9]"
  by code_simp

lemma resolveColumnName_e_acute:
  "resolveColumnName [CHR 0xC3, CHR 0xA9] [] = [CHR 0xC3, CHR 0xA9]"
  by code_simp

text \<open>
  C7. The claim is that a non-empty tag is the column name as it is, and that without
  a tag the column name is the identifier converted by the rule of the specification,
  for every identifier. The first half holds. The second fails for an identifier with
  a character outside ASCII: the loop appends \<open>byte(c)\<close>, the low eight bits of the
  rune, so the two bytes \<open>0xC3 0xA9\<close> of the lower case letter e-acute become the
  single byte \<open>0xE9\<close>, although the identifier has no upper case letter and the rule
  keeps it as it is.

  As amended: a non-empty tag is returned as it is, whatever the identifier; without
  a tag, an identifier of ASCII characters is converted by the rule. \<open>UserID\<close> gives
  \<open>user_id\<close>, and \<open>id\<close> gives \<open>id\<close>.
\<close>

theorem column_name_resolution:
  "Get (Tag f) ''db'' \<noteq> [] \<or> ascii (Name f) \<Longrightarrow>
     column_name Upper f = resolveColumnName (Name f) (Get (Tag f) ''db'')
     \<and> FieldEscape Upper ''UserID'' = ''user_id''
     \<and> FieldEscape Upper ''id'' = ''id''"
  by (auto simp add: column_name_def resolveColumnName_def FieldEscape_ascii
        snake_case_UserID snake_case_id ascii_UserID ascii_id)

theorem column_name_resolution_witness:
  "column_name no_Upper (exported_field ''UserID'' []) = ''user_id''
   \<and> column_name no_Upper (exported_field ''id'' []) = ''id''
   \<and> column_name no_Upper (exported_field ''UserID'' [(''db'', ''uid'')]) = ''uid''"
  using column_name_resolution [of "exported_field ''UserID'' []" no_Upper]
    column_name_resolution [of "exported_field ''id'' []" no_Upper]
    column_name_resolution [of "exported_field ''UserID'' [(''db'', ''uid'')]" no_Upper]
  by (simp add: exported_field_def Get_def ascii_UserID ascii_id resolveColumnName_def
        snake_case_UserID snake_case_id)

theorem column_name_resolution_counterexample:
  "column_name no_Upper (exported_field [CHR 0xC3, CHR 0xA9] [])
     \<noteq> resolveColumnName [CHR 0xC3, CHR 0xA9] (Get [] ''db'')"
  by (simp add: column_name_e_acute resolveColumnName_e_acute Get_def)

section \<open>The rendered condition\<close>

lemma itoa_10: "itoa 10 = ''10''"
  by code_simp

lemma itoa_5: "itoa 5 = ''5''"
  by code_simp

text \<open>
  C6. A descriptor with predicate \<open>id = 1\<close>, sort \<open>id\<close>, order \<open>desc\<close>, no group, limit 5
  and offset 10, whatever its table and its storage handle are: \<open>SQLCondition\<close> appends
  exactly \<open> where id = 1 order by id desc limit 10,5\<close> to the buffer.
\<close>

theorem SQLCondition_example:
  "SQLCondition (s\<lparr>where' := ''id = 1'', sort' := ''id'', order' := ''desc'', group' := [],
                   limit := 5, offset := 10\<rparr>) bs
     = bs @ '' where id = 1 order by id desc limit 10,5''"
  by (simp add: SQLCondition_def itoa_10 itoa_5)

section \<open>Limit forcing\<close>

lemma itoa_1: "itoa 1 = ''1''"
  by code_simp

lemma SQLCondition_limit_1:
  "SQLCondition (s\<lparr>limit := 1\<rparr>) bs = SQLCondition (s\<lparr>limit := 0\<rparr>) bs @ limit_one s"
  by (simp add: SQLCondition_def Let_def itoa_1 limit_one_def)

lemma SQLQuery_limit_1:
  "SQLQuery Upper (s\<lparr>limit := 0\<rparr>) (TStruct fs) = Return body \<Longrightarrow>
   SQLQuery Upper (s\<lparr>limit := 1\<rparr>) (TStruct fs) = Return (body @ limit_one s)"
  by (auto simp add: SQLQuery_def Let_def SQLCondition_limit_1)

lemma SQLQuery_returns: "\<exists>body. SQLQuery Upper s (TStruct fs) = Return body"
  by (simp add: SQLQuery_def Let_def)

lemma SQLQueryBuilder_struct:
  "fs \<noteq> [] \<Longrightarrow> SQLQuery Upper (s\<lparr>limit := 1\<rparr>) (TStruct fs) = Return sql \<Longrightarrow>
   SQLQueryBuilder Upper s (Some (TPtr (TStruct fs), v)) = (s\<lparr>limit := 1\<rparr>, Return (sql, None))"
  by (simp add: SQLQueryBuilder_def TypeOf_def)

lemma SQLQueryBuilder_slice:
  "fs \<noteq> [] \<Longrightarrow> SQLQuery Upper s (TStruct fs) = Return sql \<Longrightarrow>
   SQLQueryBuilder Upper s (Some (TPtr (TSlice (TStruct fs)), v)) = (s, Return (sql, None))"
  by (simp add: SQLQueryBuilder_def TypeOf_def)

lemma Query_trace_struct:
  "fs \<noteq> [] \<Longrightarrow> SQLQuery Upper (s\<lparr>limit := 1\<rparr>) (TStruct fs) = Return sql \<Longrightarrow>
   \<exists>tr. trace (Query Upper s (Some (TPtr (TStruct fs), v))) = DBQuery sql # tr"
  by (simp add: Query_def TypeOf_def Let_def split: sum.split prod.split loop_exit.split outcome.split)

lemma Query_trace_slice:
  "fs \<noteq> [] \<Longrightarrow> SQLQuery Upper s (TStruct fs) = Return sql \<Longrightarrow>
   \<exists>tr. trace (Query Upper s (Some (TPtr (TSlice (TStruct fs)), v))) = DBQuery sql # tr"
  by (simp add: Query_def TypeOf_def Let_def split: sum.split prod.split loop_exit.split outcome.split)

lemma Query_stmt_after_struct:
  "stmt_after (Query Upper s (Some (TPtr (TStruct fs), v))) = s\<lparr>limit := 1\<rparr>"
  by (simp add: Query_def TypeOf_def Let_def SQLQuery_def split: sum.split prod.split loop_exit.split outcome.split)

text \<open>
  C4. A target that is a pointer to a struct, and any descriptor: the descriptor
  leaves \<open>SQLQueryBuilder\<close> with limit 1, and the statement it compiles, which is also
  the statement \<open>Query\<close> sends to the storage handle first, is the statement of the
  same descriptor without a limit, followed by the clause for the limit 1. What the
  limit was before does not enter. (A struct without fields is refused, and nothing
  is compiled for it.)
\<close>

theorem limit_forced:
  assumes "fs \<noteq> []"
  shows "\<exists>body tr.
     SQLQuery Upper (s\<lparr>limit := 0\<rparr>) (TStruct fs) = Return body
     \<and> SQLQueryBuilder Upper s (Some (TPtr (TStruct fs), v))
         = (s\<lparr>limit := 1\<rparr>, Return (body @ limit_one s, None))
     \<and> trace (Query Upper s (Some (TPtr (TStruct fs), v))) = DBQuery (body @ limit_one s) # tr"
proof -
  obtain body where b: "SQLQuery Upper (s\<lparr>limit := 0\<rparr>) (TStruct fs) = Return body"
    using SQLQuery_returns by blast
  have one: "SQLQuery Upper (s\<lparr>limit := 1\<rparr>) (TStruct fs) = Return (body @ limit_one s)"
    by (rule SQLQuery_limit_1 [OF b])
  obtain tr where "trace (Query Upper s (Some (TPtr (TStruct fs), v))) = DBQuery (body @ limit_one s) # tr"
    using Query_trace_struct [OF assms one] by blast
  with b SQLQueryBuilder_struct [OF assms one] show ?thesis by blast
qed


lemma users_select:
  "SQLQuery no_Upper ((Limit (users []) 5)\<lparr>limit := 0\<rparr>) (TStruct [id_field])
     = Return ''select users.id from users''"
  by code_simp

lemma users_offset: "offset (Limit (users []) 5) = 0"
  by (simp add: Limit_def users_def NewStmt_def)

theorem limit_forced_witness:
  "snd (SQLQueryBuilder no_Upper (Limit (users []) 5) (Some (TPtr (TStruct [id_field]), PtrV Zero)))
     = Return (''select users.id from users limit 1'', None)
   \<and> hd (trace (Query no_Upper (Limit (users []) 5) (Some (TPtr (TStruct [id_field]), PtrV Zero))))
     = DBQuery ''select users.id from users limit 1''"
  using limit_forced [of "[id_field]" no_Upper "Limit (users []) 5" "PtrV Zero"]
  by (auto simp add: users_select users_offset limit_one_def)

text \<open>
  C10. \<open>Query\<close> into a pointer to a struct leaves the descriptor with limit 1 and
  every other field as it was, however the call ends. A later compile or query with
  that descriptor and a collection target \<open>[]gs\<close> then renders the limit 1 as well:
  for a slice target the limit is not touched.
\<close>

theorem limit_stays:
  "stmt_after (Query Upper s (Some (TPtr (TStruct fs), v))) = s\<lparr>limit := 1\<rparr>
   \<and> (gs \<noteq> [] \<longrightarrow>
        (\<exists>body tr.
           SQLQuery Upper (s\<lparr>limit := 0\<rparr>) (TStruct gs) = Return body
           \<and> SQLQueryBuilder Upper (stmt_after (Query Upper s (Some (TPtr (TStruct fs), v))))
                (Some (TPtr (TSlice (TStruct gs)), w))
               = (s\<lparr>limit := 1\<rparr>, Return (body @ limit_one s, None))
           \<and> trace (Query Upper (stmt_after (Query Upper s (Some (TPtr (TStruct fs), v))))
                (Some (TPtr (TSlice (TStruct gs)), w)))
               = DBQuery (body @ limit_one s) # tr))"
proof (intro conjI impI)
  show after: "stmt_after (Query Upper s (Some (TPtr (TStruct fs), v))) = s\<lparr>limit := 1\<rparr>"
    by (rule Query_stmt_after_struct)
  assume gs: "gs \<noteq> []"
  obtain body where b: "SQLQuery Upper (s\<lparr>limit := 0\<rparr>) (TStruct gs) = Return body"
    using SQLQuery_returns by blast
  have one: "SQLQuery Upper (s\<lparr>limit := 1\<rparr>) (TStruct gs) = Return (body @ limit_one s)"
    by (rule SQLQuery_limit_1 [OF b])
  obtain tr where
    "trace (Query Upper (s\<lparr>limit := 1\<rparr>) (Some (TPtr (TSlice (TStruct gs)), w)))
       = DBQuery (body @ limit_one s) # tr"
    using Query_trace_slice [OF gs one] by blast
  with b SQLQueryBuilder_slice [OF gs one]
  show "\<exists>body tr.
           SQLQuery Upper (s\<lparr>limit := 0\<rparr>) (TStruct gs) = Return body
           \<and> SQLQueryBuilder Upper (stmt_after (Query Upper s (Some (TPtr (TStruct fs), v))))
                (Some (TPtr (TSlice (TStruct gs)), w))
               = (s\<lparr>limit := 1\<rparr>, Return (body @ limit_one s, None))
           \<and> trace (Query Upper (stmt_after (Query Upper s (Some (TPtr (TStruct fs), v))))
                (Some (TPtr (TSlice (TStruct gs)), w)))
               = DBQuery (body @ limit_one s) # tr"
    unfolding after by blast
qed

theorem limit_stays_witness:
  "limit (stmt_after (Query no_Upper (Limit (users []) 5) (Some (TPtr (TStruct [id_field]), PtrV Zero)))) = 1
   \<and> snd (SQLQueryBuilder no_Upper
            (stmt_after (Query no_Upper (Limit (users []) 5) (Some (TPtr (TStruct [id_field]), PtrV Zero))))
            (Some (TPtr (TSlice (TStruct [id_field])), PtrV Zero)))
       = Return (''select users.id from users limit 1'', None)"
  using limit_stays [of no_Upper "Limit (users []) 5" "[id_field]" "PtrV Zero" "[id_field]" "PtrV Zero"]
  by (auto simp add: users_select users_offset limit_one_def)

text \<open>
  C8. The claim is that \<open>Query\<close> returns an invalid-target error, with no statement
  generated or executed, for a target that is not a pointer and for a collection target
  whose element type is malformed. For a target whose type is not a pointer type it
  does. For a pointer to a slice whose elements are not structs there is no check:
  \<open>rt.NumField()\<close> panics, and no error is returned. The nil interface has no type,
  and \<open>rt.Kind()\<close> panics.

  As amended: for every target with a type of another kind than pointer, \<open>Query\<close>
  returns the error \<open>result type must be ptr\<close>; for a pointer to a slice with elements
  of another kind than struct, and for the nil interface, it panics. In all three
  cases no statement reaches the storage handle and the descriptor is as before.
\<close>

theorem invalid_target:
  "(TypeOf result = Some rt \<and> Kind rt \<noteq> Ptr \<longrightarrow>
      Query Upper s result
        = \<lparr>stmt_after = s, result_after = result, trace = [],
           returned = Return (Some (Errorf (''result type must be ptr, recv:''
                                             @ KindString (Kind rt))))\<rparr>)
   \<and> (Kind e \<noteq> Struct \<longrightarrow>
      Query Upper s (Some (TPtr (TSlice e), v))
        = \<lparr>stmt_after = s, result_after = Some (TPtr (TSlice e), v), trace = [],
           returned = Panic NumFieldOfNonStruct\<rparr>)
   \<and> Query Upper s None
        = \<lparr>stmt_after = s, result_after = None, trace = [], returned = Panic NilTypeDereference\<rparr>"
proof (intro conjI impI)
  assume "TypeOf result = Some rt \<and> Kind rt \<noteq> Ptr"
  then show "Query Upper s result
        = \<lparr>stmt_after = s, result_after = result, trace = [],
           returned = Return (Some (Errorf (''result type must be ptr, recv:''
                                             @ KindString (Kind rt))))\<rparr>"
    by (cases rt) (simp_all add: Query_def)
next
  assume "Kind e \<noteq> Struct"
  then show "Query Upper s (Some (TPtr (TSlice e), v))
        = \<lparr>stmt_after = s, result_after = Some (TPtr (TSlice e), v), trace = [],
           returned = Panic NumFieldOfNonStruct\<rparr>"
    by (cases e) (simp_all add: Query_def TypeOf_def)
next
  show "Query Upper s None
        = \<lparr>stmt_after = s, result_after = None, trace = [], returned = Panic NilTypeDereference\<rparr>"
    by (simp add: Query_def TypeOf_def)
qed

theorem invalid_target_witness:
  "Query no_Upper (users []) (Some (TStruct [id_field], Zero))
     = \<lparr>stmt_after = users [], result_after = Some (TStruct [id_field], Zero), trace = [],
        returned = Return (Some (Errorf ''result type must be ptr, recv:struct''))\<rparr>
   \<and> Query no_Upper (users []) (Some (TPtr (TSlice (TOther ''int'')), PtrV Zero))
     = \<lparr>stmt_after = users [], result_after = Some (TPtr (TSlice (TOther ''int'')), PtrV Zero),
        trace = [], returned = Panic NumFieldOfNonStruct\<rparr>"
  using invalid_target [of "Some (TStruct [id_field], Zero)" "TStruct [id_field]" no_Upper "users []"
      "TOther ''int''" "PtrV Zero"]
  by (simp add: TypeOf_def)

theorem invalid_target_counterexample:
  "returned (Query no_Upper (users []) (Some (TPtr (TSlice (TOther ''int'')), PtrV Zero)))
     = Panic NumFieldOfNonStruct
   \<and> (\<forall>err. returned (Query no_Upper (users []) (Some (TPtr (TSlice (TOther ''int'')), PtrV Zero)))
          \<noteq> Return (Some err))"
  by (simp add: Query_def TypeOf_def)

section \<open>Running a query\<close>

lemma scan_refs_exported:
  "\<forall>f\<in>set fs. PkgPath f \<noteq> [] \<longrightarrow> \<not> Anonymous f \<Longrightarrow> scan_refs fs = Return (length (mapped fs))"
  by (induction fs) (auto simp add: mapped_def unexported_def)

lemma SQLQueryBuilder_valid:
  assumes "SQLQueryBuilder Upper s (Some (TPtr t, v)) = (s1, Return (sql, None))"
    and "t = TStruct fs \<or> t = TSlice (TStruct fs)"
  shows "fs \<noteq> [] \<and> s1 = (if t = TStruct fs then s\<lparr>limit := 1\<rparr> else s)
         \<and> SQLQuery Upper s1 (TStruct fs) = Return sql"
  using assms
  by (auto simp add: SQLQueryBuilder_def TypeOf_def split: if_splits outcome.splits)

lemma Query_valid:
  assumes "SQLQueryBuilder Upper s (Some (TPtr t, PtrV x)) = (s1, Return (sql, None))"
    and "t = TStruct fs \<or> t = TSlice (TStruct fs)"
  shows "Query Upper s (Some (TPtr t, PtrV x)) =
     (case DB_Query (db s) sql of
        Inl err \<Rightarrow> \<lparr>stmt_after = s1, result_after = Some (TPtr t, PtrV x), trace = [DBQuery sql],
                     returned = Return (Some (Trace (DriverError err)))\<rparr>
      | Inr rows \<Rightarrow>
          (case rows_loop fs rows (Valid t x) of
             (First obj, tr) \<Rightarrow>
               \<lparr>stmt_after = s1, result_after = Some (TPtr t, PtrV obj),
                 trace = DBQuery sql # tr @ [RowsClose], returned = Return None\<rparr>
           | (Failed e, tr) \<Rightarrow>
               \<lparr>stmt_after = s1, result_after = Some (TPtr t, PtrV x),
                 trace = DBQuery sql # tr @ [RowsClose], returned = Return (Some e)\<rparr>
           | (Panicked p, tr) \<Rightarrow>
               \<lparr>stmt_after = s1, result_after = Some (TPtr t, PtrV x),
                 trace = DBQuery sql # tr @ [RowsClose], returned = Panic p\<rparr>
           | (Exhausted rv', tr) \<Rightarrow>
               if Value_Kind rv' = Struct
               then \<lparr>stmt_after = s1, result_after = Some (TPtr t, PtrV x),
                      trace = DBQuery sql # tr @ [RowsClose],
                      returned = Return (Some (Trace ErrNotFound))\<rparr>
               else
                 (case Len rv' of
                    Panic p \<Rightarrow>
                      \<lparr>stmt_after = s1, result_after = Some (TPtr t, PtrV x),
                        trace = DBQuery sql # tr @ [RowsClose], returned = Panic p\<rparr>
                  | Return l \<Rightarrow>
                      if l = 0
                      then \<lparr>stmt_after = s1, result_after = Some (TPtr t, PtrV x),
                             trace = DBQuery sql # tr @ [RowsClose],
                             returned = Return (Some (Trace ErrNotFound))\<rparr>
                      else
                        (case Interface rv' of
                           Panic p \<Rightarrow>
                             \<lparr>stmt_after = s1, result_after = Some (TPtr t, PtrV x),
                               trace = DBQuery sql # tr @ [RowsClose], returned = Panic p\<rparr>
                         | Return v \<Rightarrow>
                             \<lparr>stmt_after = s1, result_after = Some (TPtr t, PtrV v),
                               trace = DBQuery sql # tr @ [RowsClose],
                               returned = Return None\<rparr>))))"
proof -
  from SQLQueryBuilder_valid [OF assms]
  have fs: "fs \<noteq> []" and s1: "s1 = (if t = TStruct fs then s\<lparr>limit := 1\<rparr> else s)"
    and sql: "SQLQuery Upper s1 (TStruct fs) = Return sql"
    by blast+
  from assms(2) show ?thesis
  proof
    assume t: "t = TStruct fs"
    with fs s1 sql show ?thesis
      by (simp add: Query_def TypeOf_def ValueOf_def fields_of_def
            split: sum.split prod.split loop_exit.split outcome.split)
  next
    assume t: "t = TSlice (TStruct fs)"
    with fs s1 sql show ?thesis
      by (simp add: Query_def TypeOf_def ValueOf_def fields_of_def
            split: sum.split prod.split loop_exit.split outcome.split)
  qed
qed

text \<open>
  What \<open>Query\<close> does when the loop ends without a row, for a target that points to a
  struct or to a slice of structs, with \<open>sql\<close> the statement compiled for it: it returns
  \<open>ErrNotFound\<close> (traced) for a struct and for a slice that holds no element, and \<open>nil\<close>
  for a slice that holds elements; the target is as before. When \<open>db.Query\<close> itself
  fails, the error of the driver is returned (traced).
\<close>

lemma Query_no_rows:
  assumes "t = TStruct fs \<or> t = TSlice (TStruct fs)"
    and "SQLQueryBuilder Upper s (Some (TPtr t, PtrV x)) = (s1, Return (sql, None))"
  shows "(DB_Query (db s) sql = Inr [] \<longrightarrow>
            Query Upper s (Some (TPtr t, PtrV x))
              = \<lparr>stmt_after = s1, result_after = Some (TPtr t, PtrV x),
                 trace = [DBQuery sql, RowsNext, RowsClose],
                 returned = (if t = TStruct fs \<or> elements x = []
                             then Return (Some (Trace ErrNotFound)) else Return None)\<rparr>)
         \<and> (\<forall>m. DB_Query (db s) sql = Inl m \<longrightarrow>
               returned (Query Upper s (Some (TPtr t, PtrV x)))
                 = Return (Some (Trace (DriverError m))))"
proof -
  note q = Query_valid [OF assms(2) assms(1)]
  from assms(1) show ?thesis
  proof
    assume "t = TStruct fs"
    with q show ?thesis by simp
  next
    assume "t = TSlice (TStruct fs)"
    with q show ?thesis by simp
  qed
qed

lemma select_id_limit_1:
  "SQLQuery no_Upper ((NewStmt d ''users'')\<lparr>limit := 1\<rparr>) (TStruct [id_field])
     = Return ''select users.id from users limit 1''"
  by code_simp

lemma select_id:
  "SQLQuery no_Upper (NewStmt d ''users'') (TStruct [id_field]) = Return ''select users.id from users''"
  by code_simp

lemma users_query: "DB_Query (db (users rows)) q = Inr rows"
  by (simp add: users_def NewStmt_def db_of_def)

lemma users_offline_query: "DB_Query (db users_offline) q = Inl ''connection refused''"
  by (simp add: users_offline_def NewStmt_def db_failing_def)

lemma Query_no_rows_examples:
  "returned (Query no_Upper (users []) (Some (TPtr (TStruct [id_field]), PtrV Zero)))
     = Return (Some (Trace ErrNotFound))
   \<and> returned (Query no_Upper (users []) (Some (TPtr (TSlice (TStruct [id_field])), PtrV (SliceV []))))
     = Return (Some (Trace ErrNotFound))
   \<and> returned (Query no_Upper users_offline (Some (TPtr (TStruct [id_field]), PtrV Zero)))
     = Return (Some (Trace (DriverError ''connection refused'')))"
  using Query_no_rows [of "TStruct [id_field]" "[id_field]" no_Upper "users []" Zero
      "(users [])\<lparr>limit := 1\<rparr>" "''select users.id from users limit 1''"]
    Query_no_rows [of "TSlice (TStruct [id_field])" "[id_field]" no_Upper "users []" "SliceV []"
      "users []" "''select users.id from users''"]
    Query_no_rows [of "TStruct [id_field]" "[id_field]" no_Upper users_offline Zero
      "users_offline\<lparr>limit := 1\<rparr>" "''select users.id from users limit 1''"]
  by (simp add: SQLQueryBuilder_struct SQLQueryBuilder_slice
        select_id_limit_1 [of "db_of []", folded users_def]
        select_id [of "db_of []", folded users_def]
        select_id_limit_1 [of "db_failing ''connection refused''", folded users_offline_def]
        users_query users_offline_query)

text \<open>
  \<open>Query\<close> does not depend on what \<open>rows.Err()\<close> would report: with a storage handle
  that differs in \<open>Rows_Err\<close> only, it gives the same events, the same target and the
  same return, and the descriptor it leaves differs in that handle only.
\<close>

lemma SQLQuery_db: "SQLQuery Upper (s\<lparr>db := d\<rparr>) rt = SQLQuery Upper s rt"
  by (simp add: SQLQuery_def SQLCondition_def Let_def split: go_type.split)

lemma SQLQuery_db_limit: "SQLQuery Upper (s\<lparr>db := d, limit := 1\<rparr>) rt = SQLQuery Upper (s\<lparr>limit := 1\<rparr>) rt"
  by (simp add: SQLQuery_def SQLCondition_def Let_def split: go_type.split)

lemma Query_ignores_Rows_Err:
  "Query Upper (s\<lparr>db := (db s)\<lparr>Rows_Err := e\<rparr>\<rparr>) result
     = (Query Upper s result)
         \<lparr>stmt_after := (stmt_after (Query Upper s result))\<lparr>db := (db s)\<lparr>Rows_Err := e\<rparr>\<rparr>\<rparr>"
proof (cases result)
  case None
  then show ?thesis by (simp add: Query_def TypeOf_def)
next
  case (Some p)
  obtain rt v where p: "p = (rt, v)" by (cases p)
  show ?thesis
  proof (cases rt)
    case (TPtr rt1)
    show ?thesis
    proof (cases rt1)
      case (TSlice e')
      show ?thesis
        unfolding Some p TPtr TSlice
        by (simp add: Query_def TypeOf_def SQLQuery_db Let_def
              split: outcome.split sum.split prod.split loop_exit.split)
    next
      case (TStruct fs)
      show ?thesis
        unfolding Some p TPtr TStruct
        by (simp add: Query_def TypeOf_def SQLQuery_db_limit Let_def
              split: outcome.split sum.split prod.split loop_exit.split)
    next
      case (TPtr x)
      show ?thesis
        unfolding Some p \<open>rt = TPtr rt1\<close> TPtr
        by (simp add: Query_def TypeOf_def)
    next
      case (TOther x)
      show ?thesis
        unfolding Some p \<open>rt = TPtr rt1\<close> TOther
        by (simp add: Query_def TypeOf_def)
    qed
  qed (simp_all add: Some p Query_def TypeOf_def)
qed

text \<open>
  C3. The claim is that a query with an empty result set ends in \<open>ErrNotFound\<close>, for a
  single record and for a collection that remains empty, and that \<open>ErrNotFound\<close> is
  distinct from the errors of the driver. The errors of \<open>db.Query\<close> and of \<open>rows.Scan\<close>
  are returned as they are (traced), but the third way the driver can fail is missed:
  \<open>Query\<close> takes every end of the loop \<open>for rows.Next()\<close> for the end of the rows and
  never reads \<open>rows.Err()\<close>. With a cursor that fails before its first row, \<open>Query\<close>
  into a struct and into an empty slice returns \<open>ErrNotFound\<close>, as for an empty
  result set; with a cursor that fails after its first row, \<open>Query\<close> into a slice
  returns \<open>nil\<close> with the one row.
\<close>

theorem cursor_failure_ends_as_NotFound:
  "Rows_Err (db (users_dropped [])) ''select users.id from users limit 1''
     = Some ''driver: bad connection''
   \<and> trace (Query no_Upper (users_dropped []) (Some (TPtr (TStruct [id_field]), PtrV Zero)))
     = [DBQuery ''select users.id from users limit 1'', RowsNext, RowsClose]
   \<and> returned (Query no_Upper (users_dropped []) (Some (TPtr (TStruct [id_field]), PtrV Zero)))
     = Return (Some (Trace ErrNotFound))
   \<and> returned (Query no_Upper (users_dropped [])
         (Some (TPtr (TSlice (TStruct [id_field])), PtrV (SliceV []))))
     = Return (Some (Trace ErrNotFound))
   \<and> returned (Query no_Upper (users_dropped [[Inr ''7'']])
         (Some (TPtr (TSlice (TStruct [id_field])), PtrV (SliceV []))))
     = Return None
   \<and> result_after (Query no_Upper (users_dropped [[Inr ''7'']])
         (Some (TPtr (TSlice (TStruct [id_field])), PtrV (SliceV []))))
     = Some (TPtr (TSlice (TStruct [id_field])), PtrV (SliceV [StructV [Val ''7'']]))"
  by code_simp

text \<open>
  C9. The claim is that \<open>Query\<close> into a single record, with a result set of at least
  one row, scans the first row, assigns the record and returns success, without
  consulting the other rows. It does so when the scan succeeds. When \<open>rows.Scan\<close>
  fails on the first row, \<open>Query\<close> returns that error and the target is as before.
  (A struct with an embedded field of an unexported type is left aside: taking the
  address of that field out of reflection panics.)

  As amended: the target points to a struct whose fields with an unexported name are
  not embedded, \<open>sql\<close> is the statement compiled for it, and the storage handle
  answers \<open>sql\<close> with the rows \<open>r # rest\<close>. Then the cursor is advanced once and \<open>r\<close>
  is scanned into one destination per mapped field, and nothing else happens on the
  cursor before it is closed; if the scan gives the values \<open>vs\<close>, the target becomes
  the record filled with \<open>vs\<close> and \<open>Query\<close> returns \<open>nil\<close>; if it fails, \<open>Query\<close> returns the
  error of the scan and the target is as before.
\<close>

theorem first_row_only:
  assumes "\<forall>f\<in>set fs. PkgPath f \<noteq> [] \<longrightarrow> \<not> Anonymous f"
    and "SQLQueryBuilder Upper s (Some (TPtr (TStruct fs), PtrV x)) = (s1, Return (sql, None))"
    and "DB_Query (db s) sql = Inr (r # rest)"
  shows "(\<forall>vs. Scan r (length (mapped fs)) = Inr vs \<longrightarrow>
            Query Upper s (Some (TPtr (TStruct fs), PtrV x))
              = \<lparr>stmt_after = s1,
                 result_after = Some (TPtr (TStruct fs), PtrV (StructV (fill fs vs))),
                 trace = [DBQuery sql, RowsNext, RowsScan (length (mapped fs)), RowsClose],
                 returned = Return None\<rparr>)
         \<and> (\<forall>m. Scan r (length (mapped fs)) = Inl m \<longrightarrow>
            Query Upper s (Some (TPtr (TStruct fs), PtrV x))
              = \<lparr>stmt_after = s1,
                 result_after = Some (TPtr (TStruct fs), PtrV x),
                 trace = [DBQuery sql, RowsNext, RowsScan (length (mapped fs)), RowsClose],
                 returned = Return (Some (Trace (DriverError m)))\<rparr>)"
  by (simp add: Query_valid [OF assms(2)] assms(3) scan_refs_exported [OF assms(1)])

lemma users2_select:
  "SQLQuery no_Upper ((users rows)\<lparr>limit := 1\<rparr>) (TStruct [id_field, name_field])
     = Return ''select users.id, users.name from users limit 1''"
  by code_simp

lemma mapped_two: "length (mapped [id_field, name_field]) = 2"
  by code_simp

lemma Scan_ann: "Scan [Inr ''7'', Inr ''ann''] 2 = Inr [''7'', ''ann'']"
  by code_simp

lemma exported_two: "\<forall>f\<in>set [id_field, name_field]. PkgPath f \<noteq> [] \<longrightarrow> \<not> Anonymous f"
  by (simp add: id_field_def name_field_def exported_field_def)

lemma mapped_id_name: "\<not> unexported id_field \<and> \<not> unexported name_field"
  by (simp add: unexported_def id_field_def name_field_def exported_field_def)

lemma Scan_null:
  "Scan [Inl ''converting NULL to int is unsupported'', Inr ''ann''] 2
     = Inl ''converting NULL to int is unsupported''"
  by code_simp

theorem first_row_only_witness:
  "Query no_Upper (users [[Inr ''7'', Inr ''ann''], [Inr ''8'', Inr ''bob'']])
       (Some (TPtr (TStruct [id_field, name_field]), PtrV Zero))
     = \<lparr>stmt_after = (users [[Inr ''7'', Inr ''ann''], [Inr ''8'', Inr ''bob'']])\<lparr>limit := 1\<rparr>,
        result_after = Some (TPtr (TStruct [id_field, name_field]), PtrV (StructV [Val ''7'', Val ''ann''])),
        trace = [DBQuery ''select users.id, users.name from users limit 1'', RowsNext, RowsScan 2, RowsClose],
        returned = Return None\<rparr>
   \<and> trace (Query no_Upper
         (users [[Inl ''converting NULL to int is unsupported'', Inr ''ann''], [Inr ''8'', Inr ''bob'']])
         (Some (TPtr (TStruct [id_field, name_field]), PtrV Zero)))
     = [DBQuery ''select users.id, users.name from users limit 1'', RowsNext, RowsScan 2, RowsClose]"
  using first_row_only [of "[id_field, name_field]" no_Upper
      "users [[Inr ''7'', Inr ''ann''], [Inr ''8'', Inr ''bob'']]" Zero
      "(users [[Inr ''7'', Inr ''ann''], [Inr ''8'', Inr ''bob'']])\<lparr>limit := 1\<rparr>"
      "''select users.id, users.name from users limit 1''"
      "[Inr ''7'', Inr ''ann'']" "[[Inr ''8'', Inr ''bob'']]"]
    first_row_only [of "[id_field, name_field]" no_Upper
      "users [[Inl ''converting NULL to int is unsupported'', Inr ''ann''], [Inr ''8'', Inr ''bob'']]" Zero
      "(users [[Inl ''converting NULL to int is unsupported'', Inr ''ann''], [Inr ''8'', Inr ''bob'']])\<lparr>limit := 1\<rparr>"
      "''select users.id, users.name from users limit 1''"
      "[Inl ''converting NULL to int is unsupported'', Inr ''ann'']" "[[Inr ''8'', Inr ''bob'']]"]
  by (simp add: exported_two SQLQueryBuilder_struct users2_select users_query mapped_two Scan_ann
        Scan_null mapped_id_name)

theorem first_row_only_counterexample:
  "returned (Query no_Upper
       (users [[Inl ''converting NULL to int is unsupported'', Inr ''ann''], [Inr ''8'', Inr ''bob'']])
       (Some (TPtr (TStruct [id_field, name_field]), PtrV Zero)))
     = Return (Some (Trace (DriverError ''converting NULL to int is unsupported'')))
   \<and> result_after (Query no_Upper
       (users [[Inl ''converting NULL to int is unsupported'', Inr ''ann''], [Inr ''8'', Inr ''bob'']])
       (Some (TPtr (TStruct [id_field, name_field]), PtrV Zero)))
     = Some (TPtr (TStruct [id_field, name_field]), PtrV Zero)
   \<and> returned (Query no_Upper (users [[Inr ''7'', Inr ''x'']])
       (Some (TPtr (TStruct [id_field, base_field]), PtrV Zero)))
     = Panic InterfaceOfUnexportedField"
  by code_simp

section \<open>Records without a mapped field\<close>

text \<open>
  A struct without fields is refused by \<open>Query\<close>, \<open>Insert\<close> and \<open>Update\<close> before a
  statement is built. A struct with fields of which none is mapped gets the statement
  \<open>selec from\<close>: the loop of \<open>SQLQuery\<close> writes nothing, and \<open>Truncate\<close> takes the last
  two bytes of \<open>select \<close>.
\<close>

lemma no_fields_refused:
  "Query Upper s (Some (TPtr (TStruct []), v))
     = \<lparr>stmt_after = s\<lparr>limit := 1\<rparr>, result_after = Some (TPtr (TStruct []), v), trace = [],
        returned = Return (Some (Errorf ''result not found field''))\<rparr>
   \<and> Insert Upper s (Some (TStruct [], v)) = ([], Return (0, Some (Errorf ''data not found field'')))
   \<and> Update Upper s (Some (TStruct [], v)) = ([], Return (0, Some (Errorf ''data not found field'')))"
  by (simp add: Query_def Insert_def Update_def TypeOf_def deref_def)

lemma SQLQuery_loop_unmapped: "mapped fs = [] \<Longrightarrow> SQLQuery_loop Upper ft fs bs = bs"
  by (induction fs) (simp_all add: mapped_def split: if_splits)

lemma SQLQuery_unmapped:
  "mapped fs = [] \<Longrightarrow>
   SQLQuery Upper s (TStruct fs) = Return (SQLCondition s (''selec from '' @ table s))"
  by (simp add: SQLQuery_def SQLQuery_loop_unmapped Truncate2_def)

text \<open>
  C2. The claim is that a record type without a mapped field is refused by \<open>Query\<close>,
  \<open>Insert\<close> and \<open>Update\<close> before any statement is built. The three test
  \<open>rt.NumField() == 0\<close>, which counts the unexported fields too, and the compilers then
  skip them. For a struct whose only field is unexported the test passes, no column
  is written, \<open>Truncate\<close> cuts two bytes off the opening keyword, and the statement
  that results is sent to the storage handle.
\<close>

theorem zero_mapped_fields_reach_the_handle:
  "mapped [secret_field] = []
   \<and> trace (Query no_Upper (users []) (Some (TPtr (TStruct [secret_field]), PtrV Zero)))
       = [DBQuery ''selec from users limit 1'', RowsNext, RowsClose]
   \<and> fst (Insert no_Upper (users []) (Some (TStruct [secret_field], StructV [Val ''x''])))
       = [DBExec ''insert into users) values) '' []]
   \<and> fst (Update no_Upper (users []) (Some (TStruct [secret_field], StructV [Val ''x''])))
       = [DBExec ''update `users` se'' []]"
  by code_simp

section \<open>Insert and update statements\<close>

lemma concat_sep_join: "xs \<noteq> [] \<Longrightarrow> concat (map (\<lambda>x. x @ sep) xs) = join sep xs @ sep"
  by (induction sep xs rule: join.induct) simp_all

lemma Truncate2_join:
  "xs \<noteq> [] \<Longrightarrow> Truncate2 (p @ concat (map (\<lambda>x. x @ '', '') xs)) = p @ join '', '' xs"
  by (simp add: concat_sep_join Truncate2_def)

lemma Field_Interface_exported:
  "i < length fs \<Longrightarrow> length vs = length fs \<Longrightarrow> PkgPath (fs ! i) = [] \<Longrightarrow>
   Field_Interface (Valid (TStruct fs) (StructV vs)) i = Return (vs ! i)"
  by simp

lemma emitted_Cons:
  "emitted (f # fs) = (if \<not> unexported f \<and> default_of f \<noteq> ''auto'' then f # emitted fs else emitted fs)"
  by (simp add: emitted_def)

lemma bound_args_Cons:
  "bound_args (f # fs) (v # vs) = (if bound f then v # bound_args fs vs else bound_args fs vs)"
  by (simp add: bound_args_def)

lemma SQLInsert_loop_emits:
  assumes len: "length vs = length fs"
    and readable: "\<forall>f\<in>set fs. bound f \<longrightarrow> PkgPath f = []"
  shows "k \<le> length fs \<Longrightarrow>
     SQLInsert_loop Upper (Valid (TStruct fs) (StructV vs)) (enumerate k (drop k fs)) (bs, dbs, refs)
       = Return (bs @ concat (map (\<lambda>f. column_name Upper f @ '', '') (emitted (drop k fs))),
                 dbs @ concat (map (\<lambda>f. value_text f @ '', '') (emitted (drop k fs))),
                 refs @ bound_args (drop k fs) (drop k vs))"
proof (induction "length fs - k" arbitrary: k bs dbs refs)
  case 0
  then show ?case by (simp add: emitted_def bound_args_def)
next
  case (Suc n)
  then have k: "k < length fs" by simp
  then have fs: "drop k fs = fs ! k # drop (Suc k) fs" and vs: "drop k vs = vs ! k # drop (Suc k) vs"
    using len by (simp_all add: Cons_nth_drop_Suc)
  from Suc have n: "n = length fs - Suc k" and k': "Suc k \<le> length fs" by simp_all
  note IH = Suc.hyps(1) [OF n k']
  have mem: "fs ! k \<in> set fs" using k by simp
  show ?case
  proof (cases "bound (fs ! k)")
    case True
    with readable mem have "PkgPath (fs ! k) = []" by blast
    with True k len show ?thesis
      by (simp add: fs vs IH emitted_Cons bound_args_Cons bound_def default_of_def value_text_def
            assignment_def)
  next
    case False
    then show ?thesis
      by (auto simp add: fs vs IH emitted_Cons bound_args_Cons bound_def default_of_def
            value_text_def assignment_def Let_def)
  qed
qed

lemma SQLUpdate_loop_emits:
  assumes len: "length vs = length fs"
    and readable: "\<forall>f\<in>set fs. bound f \<longrightarrow> PkgPath f = []"
  shows "k \<le> length fs \<Longrightarrow>
     SQLUpdate_loop Upper (Valid (TStruct fs) (StructV vs)) (enumerate k (drop k fs)) (bs, refs)
       = Return (bs @ concat (map (\<lambda>x. x @ '', '') (map (assignment Upper) (emitted (drop k fs)))),
                 refs @ bound_args (drop k fs) (drop k vs))"
proof (induction "length fs - k" arbitrary: k bs refs)
  case 0
  then show ?case by (simp add: emitted_def bound_args_def)
next
  case (Suc n)
  then have k: "k < length fs" by simp
  then have fs: "drop k fs = fs ! k # drop (Suc k) fs" and vs: "drop k vs = vs ! k # drop (Suc k) vs"
    using len by (simp_all add: Cons_nth_drop_Suc)
  from Suc have n: "n = length fs - Suc k" and k': "Suc k \<le> length fs" by simp_all
  note IH = Suc.hyps(1) [OF n k']
  have mem: "fs ! k \<in> set fs" using k by simp
  show ?case
  proof (cases "bound (fs ! k)")
    case True
    with readable mem have "PkgPath (fs ! k) = []" by blast
    with True k len show ?thesis
      by (simp add: fs vs IH emitted_Cons bound_args_Cons bound_def default_of_def value_text_def
            assignment_def)
  next
    case False
    then show ?thesis
      by (auto simp add: fs vs IH emitted_Cons bound_args_Cons bound_def default_of_def
            value_text_def assignment_def Let_def)
  qed
qed

lemma bound_args_aligned:
  "length vs = length fs \<Longrightarrow>
   zip (filter bound fs) (bound_args fs vs) = filter (\<lambda>(f, v). bound f) (zip fs vs)"
  by (induction vs fs rule: list_induct2) (simp_all add: bound_args_def)

lemma filter_bound_emitted: "filter bound fs = filter (\<lambda>f. default_of f = []) (emitted fs)"
  by (induction fs) (auto simp add: emitted_def bound_def)

text \<open>
  What the two compilers return for a record type with a value of it in which every
  field that is bound has an exported name: the same bound arguments, which are the
  values of the fields that are mapped and have no directive, in declaration order,
  each paired with its own field among the fields that get a placeholder. When at
  least one field gets a column, the insert statement lists the columns of the mapped
  fields without \<open>auto\<close> and, in the same order, the literal default or the placeholder
  of each; the update statement lists their assignments and ends with the rendered
  condition.
\<close>

lemma mutation_compilers:
  assumes "length vs = length fs"
    and "\<forall>f\<in>set fs. bound f \<longrightarrow> PkgPath f = []"
  shows "\<exists>ins upd.
     SQLInsert Upper s (TStruct fs) (Valid (TStruct fs) (StructV vs)) = Return (ins, bound_args fs vs)
     \<and> SQLUpdate Upper s (TStruct fs) (Valid (TStruct fs) (StructV vs)) = Return (upd, bound_args fs vs)
     \<and> zip (filter (\<lambda>f. default_of f = []) (emitted fs)) (bound_args fs vs)
         = filter (\<lambda>(f, v). bound f) (zip fs vs)
     \<and> (emitted fs \<noteq> [] \<longrightarrow>
          ins = ''insert into '' @ table s @ '' ('' @ join '', '' (map (column_name Upper) (emitted fs))
                  @ '') values ('' @ join '', '' (map value_text (emitted fs)) @ '') ''
          \<and> upd = SQLCondition s (''update `'' @ table s @ ''` set ''
                  @ join '', '' (map (assignment Upper) (emitted fs))))"
proof -
  define p where "p = ''insert into '' @ table s @ '' (''"
  define q where "q = ''update `'' @ table s @ ''` set ''"
  define r where "r = '') values (''"
  define cols where "cols = map (column_name Upper) (emitted fs)"
  define vals where "vals = map value_text (emitted fs)"
  define sets where "sets = map (assignment Upper) (emitted fs)"
  have ins: "SQLInsert Upper s (TStruct fs) (Valid (TStruct fs) (StructV vs))
      = Return (Truncate2 (p @ concat (map (\<lambda>x. x @ '', '') cols))
                  @ Truncate2 (r @ concat (map (\<lambda>x. x @ '', '') vals)) @ '') '',
                bound_args fs vs)"
    using SQLInsert_loop_emits [OF assms, of 0 Upper]
    by (simp add: SQLInsert_def p_def r_def cols_def vals_def comp_def)
  have upd: "SQLUpdate Upper s (TStruct fs) (Valid (TStruct fs) (StructV vs))
      = Return (SQLCondition s (Truncate2 (q @ concat (map (\<lambda>x. x @ '', '') sets))),
                bound_args fs vs)"
    using SQLUpdate_loop_emits [OF assms, of 0 Upper]
    by (simp add: SQLUpdate_def q_def sets_def)
  have aligned: "zip (filter (\<lambda>f. default_of f = []) (emitted fs)) (bound_args fs vs)
         = filter (\<lambda>(f, v). bound f) (zip fs vs)"
    using bound_args_aligned [OF assms(1)] by (simp add: filter_bound_emitted)
  show ?thesis
  proof (cases "emitted fs = []")
    case True
    with aligned show ?thesis
      unfolding ins upd by simp
  next
    case False
    then have ne: "cols \<noteq> []" "vals \<noteq> []" "sets \<noteq> []"
      by (simp_all add: cols_def vals_def sets_def)
    have texts:
      "Truncate2 (p @ concat (map (\<lambda>x. x @ '', '') cols)) = p @ join '', '' cols"
      "Truncate2 (r @ concat (map (\<lambda>x. x @ '', '') vals)) = r @ join '', '' vals"
      "Truncate2 (q @ concat (map (\<lambda>x. x @ '', '') sets)) = q @ join '', '' sets"
      using ne by (simp_all add: Truncate2_join)
    from aligned show ?thesis
      unfolding ins upd texts
      by (simp add: p_def q_def r_def cols_def vals_def sets_def)
  qed
qed

lemma user_readable: "\<forall>f\<in>set user_fields. bound f \<longrightarrow> PkgPath f = []"
  by code_simp

lemma user_columns:
  "join '', '' (map (column_name no_Upper) (emitted user_fields)) = ''name, ctime, nick_name''"
  by code_simp

lemma user_value_texts: "join '', '' (map value_text (emitted user_fields)) = ''?, now(), ?''"
  by code_simp

lemma user_sets:
  "join '', '' (map (assignment no_Upper) (emitted user_fields))
     = ''`name`=?, `ctime`=now(), `nick_name`=?''"
  by code_simp

lemma user_args: "bound_args user_fields user_values = [Val ''ann'', Val ''annie'']"
  by code_simp

lemma user_emitted: "emitted user_fields \<noteq> []"
  by code_simp

lemma user_length: "length user_values = length user_fields"
  by code_simp

lemma users_no_condition: "SQLCondition (users rows) bs = bs"
  by (simp add: SQLCondition_def users_def NewStmt_def)

lemma users_table: "table (users rows) = ''users''"
  by (simp add: users_def NewStmt_def)

lemma mutation_compilers_example:
  "SQLInsert no_Upper (users []) (TStruct user_fields) (Valid (TStruct user_fields) (StructV user_values))
     = Return (''insert into users (name, ctime, nick_name) values (?, now(), ?) '',
               [Val ''ann'', Val ''annie''])
   \<and> SQLUpdate no_Upper (users []) (TStruct user_fields) (Valid (TStruct user_fields) (StructV user_values))
     = Return (''update `users` set `name`=?, `ctime`=now(), `nick_name`=?'',
               [Val ''ann'', Val ''annie''])"
  using mutation_compilers [of user_values user_fields no_Upper "users []"]
  by (auto simp add: user_readable user_columns user_value_texts user_sets user_args user_emitted
        user_length users_no_condition users_table)

text \<open>
  A field that is bound and has an unexported name makes both compilers panic,
  whatever the other fields are.
\<close>

lemma SQLInsert_loop_panics:
  assumes len: "length vs = length fs"
  shows "k \<le> length fs \<Longrightarrow> \<exists>f\<in>set (drop k fs). bound f \<and> PkgPath f \<noteq> [] \<Longrightarrow>
     SQLInsert_loop Upper (Valid (TStruct fs) (StructV vs)) (enumerate k (drop k fs)) (bs, dbs, refs)
       = Panic InterfaceOfUnexportedField"
proof (induction "length fs - k" arbitrary: k bs dbs refs)
  case 0
  then show ?case by simp
next
  case (Suc n)
  then have k: "k < length fs" by simp
  then have fs: "drop k fs = fs ! k # drop (Suc k) fs"
    by (simp add: Cons_nth_drop_Suc)
  from Suc have n: "n = length fs - Suc k" and k': "Suc k \<le> length fs" by simp_all
  note IH = Suc.hyps(1) [OF n k']
  show ?case
  proof (cases "bound (fs ! k) \<and> PkgPath (fs ! k) \<noteq> []")
    case True
    with k show ?thesis
      by (simp add: fs bound_def default_of_def)
  next
    case False
    with Suc.prems(2) have rest: "\<exists>f\<in>set (drop (Suc k) fs). bound f \<and> PkgPath f \<noteq> []"
      by (auto simp add: fs)
    from False k len show ?thesis
      by (auto simp add: fs IH [OF rest] bound_def default_of_def Let_def)
  qed
qed

lemma SQLUpdate_loop_panics:
  assumes len: "length vs = length fs"
  shows "k \<le> length fs \<Longrightarrow> \<exists>f\<in>set (drop k fs). bound f \<and> PkgPath f \<noteq> [] \<Longrightarrow>
     SQLUpdate_loop Upper (Valid (TStruct fs) (StructV vs)) (enumerate k (drop k fs)) (bs, refs)
       = Panic InterfaceOfUnexportedField"
proof (induction "length fs - k" arbitrary: k bs refs)
  case 0
  then show ?case by simp
next
  case (Suc n)
  then have k: "k < length fs" by simp
  then have fs: "drop k fs = fs ! k # drop (Suc k) fs"
    by (simp add: Cons_nth_drop_Suc)
  from Suc have n: "n = length fs - Suc k" and k': "Suc k \<le> length fs" by simp_all
  note IH = Suc.hyps(1) [OF n k']
  show ?case
  proof (cases "bound (fs ! k) \<and> PkgPath (fs ! k) \<noteq> []")
    case True
    with k show ?thesis
      by (simp add: fs bound_def default_of_def)
  next
    case False
    with Suc.prems(2) have rest: "\<exists>f\<in>set (drop (Suc k) fs). bound f \<and> PkgPath f \<noteq> []"
      by (auto simp add: fs)
    from False k len show ?thesis
      by (auto simp add: fs IH [OF rest] bound_def default_of_def Let_def)
  qed
qed

lemma mutation_compilers_panic:
  assumes "length vs = length fs"
    and "\<exists>f\<in>set fs. bound f \<and> PkgPath f \<noteq> []"
  shows "SQLInsert Upper s (TStruct fs) (Valid (TStruct fs) (StructV vs))
           = Panic InterfaceOfUnexportedField
         \<and> SQLUpdate Upper s (TStruct fs) (Valid (TStruct fs) (StructV vs))
           = Panic InterfaceOfUnexportedField"
  using SQLInsert_loop_panics [OF assms(1), of 0 Upper] SQLUpdate_loop_panics [OF assms(1), of 0 Upper]
    assms(2)
  by (simp add: SQLInsert_def SQLUpdate_def)

text \<open>
  C5. The claim is that, for every record type with a value of it, the insert and
  update compilers emit nothing for a field with the directive \<open>auto\<close>, the literal
  text for a field with another directive, and one placeholder with one bound
  argument for every other mapped field. The test \<open>f.PkgPath != "" && !f.Anonymous\<close>
  of both compilers lets an embedded field of an unexported type through as a mapped
  field, and the value of a field without a directive is then read with
  \<open>rv.Field(i).Interface()\<close>, which reflection refuses for an unexported name: for the
  record \<open>struct { ID; base }\<close>, \<open>SQLInsert\<close> and \<open>SQLUpdate\<close> panic, and so do \<open>Insert\<close>
  and \<open>Update\<close>, before anything reaches the storage handle. No placeholder and no
  argument is emitted for the field, and none for the field \<open>ID\<close> either.
\<close>

theorem embedded_unexported_field_panics:
  "\<not> unexported base_field
   \<and> bound base_field
   \<and> SQLInsert no_Upper (users []) (TStruct [id_field, base_field])
        (Valid (TStruct [id_field, base_field]) (StructV [Val ''7'', Val ''x'']))
       = Panic InterfaceOfUnexportedField
   \<and> SQLUpdate no_Upper (users []) (TStruct [id_field, base_field])
        (Valid (TStruct [id_field, base_field]) (StructV [Val ''7'', Val ''x'']))
       = Panic InterfaceOfUnexportedField
   \<and> Insert no_Upper (users []) (Some (TStruct [id_field, base_field], StructV [Val ''7'', Val ''x'']))
       = ([], Panic InterfaceOfUnexportedField)
   \<and> Update no_Upper (users []) (Some (TStruct [id_field, base_field], StructV [Val ''7'', Val ''x'']))
       = ([], Panic InterfaceOfUnexportedField)"
  by code_simp

end
